theory Spec2Isabelle
  imports Main "HOL-Library.AList"
begin

section \<open>JavaScript values and the operations server.js applies to them\<close>

text \<open>
  Everything the server transforms (pages, property values, blocks, text runs, listing
  responses) is a value parsed from JSON, read with dynamic property access. The model
  keeps it dynamic: an absent key reads as \<open>JUndefined\<close>, and reading a property of
  \<open>undefined\<close> or \<open>null\<close> throws.

  \<^item> Text is held as its UTF-8 bytes (so \<open>'\<bullet>'\<close> is three bytes); the server only
    concatenates text and tests it for emptiness, which UTF-8 preserves.
  \<^item> A number is held as the decimal text that \<open>String(n)\<close> gives for it; the server never
    calculates with a number it was given, it only passes it on, tests it for truthiness
    or converts it to text.
  \<^item> An object is the list of its own enumerable properties, in \<open>Object.entries\<close> order,
    with distinct keys.
\<close>

datatype jsval =
    JUndefined
  | JNull
  | JBool bool
  | JNum string
  | JStr string
  | JArr "jsval list"
  | JObj "(string \<times> jsval) list"

text \<open>
  What a thrown \<open>TypeError\<close> was about. The wording of its message belongs to the
  engine, so \<open>message\<close> below takes it as a parameter.
\<close>

datatype type_fault =
    NullishRead jsval string
  | NotAFunction jsval string
  | NotIterable jsval
  | NotAnObject jsval
  | NoPrimitive

datatype js_error = TypeError type_fault | Error string

definition message :: "(type_fault \<Rightarrow> string) \<Rightarrow> js_error \<Rightarrow> string" where
  "message engine err = (case err of TypeError t \<Rightarrow> engine t | Error m \<Rightarrow> m)"

text \<open>Sequencing of steps that may throw: the first throw ends the evaluation.\<close>

definition and_then :: "'e + 'a \<Rightarrow> ('a \<Rightarrow> 'e + 'b) \<Rightarrow> 'e + 'b" where
  "and_then r f = (case r of Inl e \<Rightarrow> Inl e | Inr v \<Rightarrow> f v)"

fun collect :: "('e + 'a) list \<Rightarrow> 'e + 'a list" where
  "collect [] = Inr []"
| "collect (r # rs) =
     (case r of
        Inl e \<Rightarrow> Inl e
      | Inr v \<Rightarrow> (case collect rs of Inl e \<Rightarrow> Inl e | Inr vs \<Rightarrow> Inr (v # vs)))"

text \<open>
  \<open>v[k]\<close> for a key \<open>k\<close> that is no built-in property of strings, numbers, booleans,
  arrays or \<open>Object.prototype\<close> (true of every key the server reads).
\<close>

fun js_get :: "jsval \<Rightarrow> string \<Rightarrow> js_error + jsval" where
  "js_get JUndefined k = Inl (TypeError (NullishRead JUndefined k))"
| "js_get JNull k = Inl (TypeError (NullishRead JNull k))"
| "js_get (JObj kvs) k = Inr (case map_of kvs k of None \<Rightarrow> JUndefined | Some v \<Rightarrow> v)"
| "js_get _ k = Inr JUndefined"

text \<open>Truthiness, as \<open>||\<close>, \<open>?:\<close> and \<open>while\<close> test it.\<close>

fun truthy :: "jsval \<Rightarrow> bool" where
  "truthy JUndefined = False"
| "truthy JNull = False"
| "truthy (JBool b) = b"
| "truthy (JNum n) = (n \<noteq> ''0'' \<and> n \<noteq> ''NaN'')"
| "truthy (JStr s) = (s \<noteq> [])"
| "truthy (JArr xs) = True"
| "truthy (JObj kvs) = True"

definition js_or :: "jsval \<Rightarrow> jsval \<Rightarrow> jsval" where
  "js_or a b = (if truthy a then a else b)"

definition nullish :: "jsval \<Rightarrow> bool" where
  "nullish v = (v = JUndefined \<or> v = JNull)"

text \<open>\<open>Array.prototype.join\<close> on texts.\<close>

fun join_strs :: "string \<Rightarrow> string list \<Rightarrow> string" where
  "join_strs sep [] = []"
| "join_strs sep [s] = s"
| "join_strs sep (s # t # ts) = s @ sep @ join_strs sep (t # ts)"

text \<open>
  The conversion to text that a template literal and \<open>join\<close> apply. An array converts
  through \<open>join(',')\<close>. A parsed object converts to \<open>[object Object]\<close>, unless it has a
  key \<open>toString\<close> of its own: that value is data, not a function, and neither is what
  \<open>valueOf\<close> returns a primitive, so the conversion throws.
\<close>

fun ToString :: "jsval \<Rightarrow> js_error + string" where
  "ToString JUndefined = Inr ''undefined''"
| "ToString JNull = Inr ''null''"
| "ToString (JBool b) = Inr (if b then ''true'' else ''false'')"
| "ToString (JNum n) = Inr n"
| "ToString (JStr s) = Inr s"
| "ToString (JArr xs) =
     and_then (collect (map (\<lambda>x. if x = JUndefined \<or> x = JNull then Inr [] else ToString x) xs))
       (\<lambda>ss. Inr (join_strs '','' ss))"
| "ToString (JObj kvs) =
     (if ''toString'' \<in> fst ` set kvs then Inl (TypeError NoPrimitive)
      else Inr ''[object Object]'')"

text \<open>\<open>xs.join(sep)\<close> on an array of values: \<open>undefined\<close> and \<open>null\<close> give no text.\<close>

definition js_join :: "string \<Rightarrow> jsval list \<Rightarrow> js_error + string" where
  "js_join sep xs =
     and_then (collect (map (\<lambda>x. if nullish x then Inr [] else ToString x) xs))
       (\<lambda>ss. Inr (join_strs sep ss))"

text \<open>
  The method call \<open>v.map(f)\<close> with a callback that may throw: reading \<open>map\<close> of
  \<open>undefined\<close> or \<open>null\<close> throws, and only an array has a callable \<open>map\<close>.
\<close>

definition js_map :: "jsval \<Rightarrow> (jsval \<Rightarrow> js_error + 'a) \<Rightarrow> js_error + 'a list" where
  "js_map v f =
     (case v of
        JUndefined \<Rightarrow> Inl (TypeError (NullishRead JUndefined ''map''))
      | JNull \<Rightarrow> Inl (TypeError (NullishRead JNull ''map''))
      | JArr xs \<Rightarrow> collect (map f xs)
      | _ \<Rightarrow> Inl (TypeError (NotAFunction v ''map'')))"

text \<open>\<open>x.map(t => t[FIELD_NAMES.PLAIN_TEXT]).join('')\<close>\<close>

definition plain_texts :: "jsval \<Rightarrow> js_error + string" where
  "plain_texts x = and_then (js_map x (\<lambda>t. js_get t ''plain_text'')) (js_join [])"

section \<open>The block renderer (the callback of \<open>blocks.map\<close> in getPageContent)\<close>

definition MARKDOWN_SYMBOLS_H1 :: string where "MARKDOWN_SYMBOLS_H1 = ''# ''"
definition MARKDOWN_SYMBOLS_H2 :: string where "MARKDOWN_SYMBOLS_H2 = ''## ''"
definition MARKDOWN_SYMBOLS_H3 :: string where "MARKDOWN_SYMBOLS_H3 = ''### ''"
definition MARKDOWN_SYMBOLS_BULLET :: string where
  "MARKDOWN_SYMBOLS_BULLET = [CHR 0xE2, CHR 0x80, CHR 0xA2] @ '' ''"
definition MARKDOWN_SYMBOLS_NUMBER :: string where "MARKDOWN_SYMBOLS_NUMBER = ''1. ''"
definition MARKDOWN_SYMBOLS_CHECKED :: string where
  "MARKDOWN_SYMBOLS_CHECKED = [CHR 0xE2, CHR 0x9C, CHR 0x93]"
definition MARKDOWN_SYMBOLS_UNCHECKED :: string where
  "MARKDOWN_SYMBOLS_UNCHECKED = [CHR 0xE2, CHR 0x97, CHR 0x8B]"
definition MARKDOWN_SYMBOLS_TOGGLE :: string where
  "MARKDOWN_SYMBOLS_TOGGLE = [CHR 0xE2, CHR 0x96, CHR 0xB8] @ '' ''"
definition MARKDOWN_SYMBOLS_QUOTE :: string where "MARKDOWN_SYMBOLS_QUOTE = ''> ''"
definition MARKDOWN_SYMBOLS_DIVIDER :: string where "MARKDOWN_SYMBOLS_DIVIDER = ''---''"
definition MARKDOWN_SYMBOLS_CODE_BLOCK_START :: string where
  "MARKDOWN_SYMBOLS_CODE_BLOCK_START = ''```''"
definition MARKDOWN_SYMBOLS_NEWLINE :: string where
  "MARKDOWN_SYMBOLS_NEWLINE = [CHR 0x0A]"
definition MARKDOWN_SYMBOLS_CODE_BLOCK_END :: string where
  "MARKDOWN_SYMBOLS_CODE_BLOCK_END = [CHR 0x0A] @ ''```''"
definition MARKDOWN_SYMBOLS_DOUBLE_NEWLINE :: string where
  "MARKDOWN_SYMBOLS_DOUBLE_NEWLINE = [CHR 0x0A, CHR 0x0A]"

text \<open>\<open>block[kind][PROPERTY_TYPES.RICH_TEXT].map(t => t[FIELD_NAMES.PLAIN_TEXT]).join('')\<close>\<close>

definition block_text :: "jsval \<Rightarrow> string \<Rightarrow> js_error + string" where
  "block_text block kind =
     and_then (js_get block kind) (\<lambda>payload.
     and_then (js_get payload ''rich_text'') plain_texts)"

text \<open>The template literal that puts a symbol in front of the block's text.\<close>

definition prefixed :: "string \<Rightarrow> jsval \<Rightarrow> string \<Rightarrow> js_error + string" where
  "prefixed symbol block kind = and_then (block_text block kind) (\<lambda>t. Inr (symbol @ t))"

definition render :: "jsval \<Rightarrow> js_error + string" where
  "render block =
     and_then (js_get block ''type'') (\<lambda>ty.
       if ty = JStr ''paragraph'' then block_text block ''paragraph''
       else if ty = JStr ''heading_1'' then prefixed MARKDOWN_SYMBOLS_H1 block ''heading_1''
       else if ty = JStr ''heading_2'' then prefixed MARKDOWN_SYMBOLS_H2 block ''heading_2''
       else if ty = JStr ''heading_3'' then prefixed MARKDOWN_SYMBOLS_H3 block ''heading_3''
       else if ty = JStr ''bulleted_list_item'' then
         prefixed MARKDOWN_SYMBOLS_BULLET block ''bulleted_list_item''
       else if ty = JStr ''numbered_list_item'' then
         prefixed MARKDOWN_SYMBOLS_NUMBER block ''numbered_list_item''
       else if ty = JStr ''to_do'' then
         and_then (js_get block ''to_do'') (\<lambda>payload.
         and_then (js_get payload ''checked'') (\<lambda>c.
           let checked = (if truthy c then MARKDOWN_SYMBOLS_CHECKED
                          else MARKDOWN_SYMBOLS_UNCHECKED)
           in prefixed (checked @ '' '') block ''to_do''))
       else if ty = JStr ''toggle'' then prefixed MARKDOWN_SYMBOLS_TOGGLE block ''toggle''
       else if ty = JStr ''code'' then
         and_then (js_get block ''code'') (\<lambda>payload.
         and_then (js_get payload ''language'') (\<lambda>language.
         and_then (ToString language) (\<lambda>lang.
         and_then (block_text block ''code'') (\<lambda>t.
           Inr (MARKDOWN_SYMBOLS_CODE_BLOCK_START @ lang @ MARKDOWN_SYMBOLS_NEWLINE @ t
                @ MARKDOWN_SYMBOLS_CODE_BLOCK_END)))))
       else if ty = JStr ''quote'' then prefixed MARKDOWN_SYMBOLS_QUOTE block ''quote''
       else if ty = JStr ''divider'' then Inr MARKDOWN_SYMBOLS_DIVIDER
       else and_then (ToString ty) (\<lambda>kind. Inr (''['' @ kind @ '']'')))"

text \<open>
  \<open>blocks.map(render)\<close>, then \<open>.filter(text => text.length > 0)\<close>: the array that
  getPageContent calls \<open>content\<close>, which it joins with a blank line when it builds
  its result.
\<close>

definition render_all :: "jsval list \<Rightarrow> js_error + string list" where
  "render_all blocks = collect (map render blocks)"

definition content_lines :: "jsval list \<Rightarrow> js_error + string list" where
  "content_lines blocks =
     and_then (render_all blocks) (\<lambda>lines. Inr (filter (\<lambda>text. length text > 0) lines))"

text \<open>
  The rows of the table of section 4.2 of the specification, written from its words
  (\<open>joined\<close> is the joined run text): what \<open>render\<close> is compared with.
\<close>

definition text_kinds :: "string list" where
  "text_kinds =
     [''paragraph'', ''heading_1'', ''heading_2'', ''heading_3'', ''bulleted_list_item'',
      ''numbered_list_item'', ''to_do'', ''toggle'', ''code'', ''quote'']"

definition table_4_2 :: "string \<Rightarrow> bool \<Rightarrow> string \<Rightarrow> string \<Rightarrow> string" where
  "table_4_2 kind checked language joined =
     (if kind = ''paragraph'' then joined
      else if kind = ''heading_1'' then ''# '' @ joined
      else if kind = ''heading_2'' then ''## '' @ joined
      else if kind = ''heading_3'' then ''### '' @ joined
      else if kind = ''bulleted_list_item'' then
        [CHR 0xE2, CHR 0x80, CHR 0xA2, CHR 0x20] @ joined
      else if kind = ''numbered_list_item'' then ''1. '' @ joined
      else if kind = ''to_do'' then
        (if checked then [CHR 0xE2, CHR 0x9C, CHR 0x93, CHR 0x20]
         else [CHR 0xE2, CHR 0x97, CHR 0x8B, CHR 0x20]) @ joined
      else if kind = ''toggle'' then [CHR 0xE2, CHR 0x96, CHR 0xB8, CHR 0x20] @ joined
      else if kind = ''code'' then
        ''```'' @ language @ [CHR 0x0A] @ joined @ [CHR 0x0A] @ ''```''
      else if kind = ''quote'' then ''> '' @ joined
      else if kind = ''divider'' then ''---''
      else ''['' @ kind @ '']'')"

section \<open>The property normalizer (extractAllProperties)\<close>

text \<open>The decimal text of an array index or of a length.\<close>

definition digit :: "nat \<Rightarrow> char" where
  "digit d = ''0123456789'' ! d"

function decimal :: "nat \<Rightarrow> string" where
  "decimal n =
     (if n < 10 then [digit n]
      else decimal (n div 10) @ [digit (n mod 10)])"
  by pat_completeness auto
termination
  by (relation "measure (\<lambda>n. n)") auto

declare decimal.simps [simp del]

text \<open>
  UTF-8 text cut at the bytes that start a character: spreading a string yields these
  characters.
\<close>

definition continuation :: "char \<Rightarrow> bool" where
  "continuation c = (128 \<le> (of_char c :: nat) \<and> (of_char c :: nat) < 192)"

function code_points :: "string \<Rightarrow> string list" where
  "code_points [] = []"
| "code_points (c # cs) =
     (c # takeWhile continuation cs) # code_points (dropWhile continuation cs)"
  by pat_completeness auto
termination
  by (relation "measure length") (auto simp: length_dropWhile_le less_Suc_eq_le)

text \<open>
  The UTF-16 code units of a text, each as a text of its own, which is how
  \<open>Object.entries\<close> cuts a string. A character of the Basic Multilingual Plane is one
  code unit. A character beyond it (four bytes of UTF-8) is a pair of surrogates; a
  surrogate on its own is held in the three bytes that the UTF-8 scheme gives its code.
\<close>

definition surrogate_bytes :: "nat \<Rightarrow> string" where
  "surrogate_bytes u =
     [char_of (224 + u div 4096), char_of (128 + (u div 64) mod 64), char_of (128 + u mod 64)]"

definition units_of_character :: "string \<Rightarrow> string list" where
  "units_of_character bytes =
     (case bytes of
        [b0, b1, b2, b3] \<Rightarrow>
          (let code = (of_char b0 mod 8) * 262144 + (of_char b1 mod 64) * 4096
                      + (of_char b2 mod 64) * 64 + of_char b3 mod 64;
               offset = code - 65536
           in [surrogate_bytes (55296 + offset div 1024),
               surrogate_bytes (56320 + offset mod 1024)])
      | _ \<Rightarrow> [bytes])"

definition code_units :: "string \<Rightarrow> string list" where
  "code_units s = concat (map units_of_character (code_points s))"

text \<open>\<open>Object.entries(v)\<close>\<close>

definition object_entries :: "jsval \<Rightarrow> js_error + (string \<times> jsval) list" where
  "object_entries v =
     (case v of
        JUndefined \<Rightarrow> Inl (TypeError (NotAnObject v))
      | JNull \<Rightarrow> Inl (TypeError (NotAnObject v))
      | JBool b \<Rightarrow> Inr []
      | JNum n \<Rightarrow> Inr []
      | JStr s \<Rightarrow>
          (let cs = code_units s in Inr (zip (map decimal [0 ..< length cs]) (map JStr cs)))
      | JArr xs \<Rightarrow> Inr (zip (map decimal [0 ..< length xs]) xs)
      | JObj kvs \<Rightarrow> Inr kvs)"

text \<open>
  \<open>properties[key] = v\<close> on the plain object \<open>properties\<close>, seen through its own
  enumerable properties. The key \<open>__proto__\<close> is the accessor that \<open>properties\<close>
  inherits from \<open>Object.prototype\<close>: assigning to it calls the setter (which replaces
  the prototype, or does nothing for a primitive) and creates no property. Any other
  key is overwritten in place or appended.
\<close>

definition set_property ::
  "(string \<times> jsval) list \<Rightarrow> string \<Rightarrow> jsval \<Rightarrow> (string \<times> jsval) list" where
  "set_property properties key v =
     (if key = ''__proto__'' then properties else AList.update key v properties)"

text \<open>
  Optional chaining: \<open>x?.[k]\<close>, and \<open>x?.map(f)\<close>, which is \<open>None\<close> when \<open>x\<close> is
  \<open>undefined\<close> or \<open>null\<close> and then skips the rest of its chain.
\<close>

definition opt_get :: "jsval \<Rightarrow> string \<Rightarrow> js_error + jsval" where
  "opt_get x k = (if nullish x then Inr JUndefined else js_get x k)"

definition opt_map :: "jsval \<Rightarrow> (jsval \<Rightarrow> js_error + 'a) \<Rightarrow> js_error + 'a list option" where
  "opt_map x f = (if nullish x then Inr None else and_then (js_map x f) (\<lambda>ys. Inr (Some ys)))"

text \<open>The value that one turn of the loop assigns to \<open>properties[key]\<close>.\<close>

definition normalize_property :: "jsval \<Rightarrow> js_error + jsval" where
  "normalize_property v =
     and_then (js_get v ''type'') (\<lambda>ty.
       if ty = JStr ''title'' \<or> ty = JStr ''rich_text'' then
         and_then (js_get v (if ty = JStr ''title'' then ''title'' else ''rich_text'')) (\<lambda>x.
         and_then (opt_map x (\<lambda>t. js_get t ''plain_text'')) (\<lambda>r.
           case r of
             None \<Rightarrow> Inr (js_or JUndefined (JStr []))
           | Some ts \<Rightarrow> and_then (js_join [] ts) (\<lambda>s. Inr (js_or (JStr s) (JStr [])))))
       else if ty = JStr ''number'' then js_get v ''number''
       else if ty = JStr ''select'' then
         and_then (js_get v ''select'') (\<lambda>x.
         and_then (opt_get x ''name'') (\<lambda>n. Inr (js_or n JNull)))
       else if ty = JStr ''multi_select'' then
         and_then (js_get v ''multi_select'') (\<lambda>x.
         and_then (opt_map x (\<lambda>s. js_get s ''name'')) (\<lambda>r.
           Inr (js_or (case r of None \<Rightarrow> JUndefined | Some ns \<Rightarrow> JArr ns) (JArr []))))
       else if ty = JStr ''date'' then
         and_then (js_get v ''date'') (\<lambda>x.
         and_then (opt_get x ''start'') (\<lambda>s. Inr (js_or s JNull)))
       else if ty = JStr ''checkbox'' then js_get v ''checkbox''
       else if ty = JStr ''url'' then js_get v ''url''
       else if ty = JStr ''email'' then js_get v ''email''
       else if ty = JStr ''phone_number'' then js_get v ''phone_number''
       else if ty = JStr ''people'' then
         and_then (js_get v ''people'') (\<lambda>x.
         and_then (opt_map x (\<lambda>p.
             and_then (js_get p ''name'') (\<lambda>n. if truthy n then Inr n else js_get p ''id''))) (\<lambda>r.
           Inr (js_or (case r of None \<Rightarrow> JUndefined | Some ns \<Rightarrow> JArr ns) (JArr []))))
       else if ty = JStr ''relation'' then
         and_then (js_get v ''relation'') (\<lambda>x.
         and_then (opt_map x (\<lambda>r. js_get r ''id'')) (\<lambda>r.
           Inr (js_or (case r of None \<Rightarrow> JUndefined | Some ids \<Rightarrow> JArr ids) (JArr []))))
       else Inr v)"

text \<open>The loop over the entries, with the object \<open>properties\<close> built so far.\<close>

fun extract_entries ::
  "(string \<times> jsval) list \<Rightarrow> (string \<times> jsval) list \<Rightarrow> js_error + (string \<times> jsval) list" where
  "extract_entries [] properties = Inr properties"
| "extract_entries ((key, v) # rest) properties =
     and_then (normalize_property v) (\<lambda>w.
       extract_entries rest (set_property properties key w))"

definition extractAllProperties :: "jsval \<Rightarrow> js_error + (string \<times> jsval) list" where
  "extractAllProperties page =
     and_then (js_get page ''properties'') (\<lambda>ps.
     and_then (object_entries (js_or ps (JObj []))) (\<lambda>entries.
       extract_entries entries []))"

section \<open>The Notion client\<close>

text \<open>
  The three calls the server makes on the client, with the arguments it passes. The
  client itself is outside the repository: it is modelled as any function from the
  requests already made and the request at hand to the outcome of the call, either
  the message of the error it rejects with, or the response it resolves to. Each call
  is added to the record of requests, so what the server asked for, and how often, can
  be read off afterwards.
\<close>

datatype request =
    PagesRetrieve string
  | BlocksChildrenList string jsval
  | Search string string string

type_synonym notion = "request list \<Rightarrow> request \<Rightarrow> string + jsval"

definition call ::
  "notion \<Rightarrow> request list \<Rightarrow> request \<Rightarrow> (js_error + jsval) \<times> request list" where
  "call notion hist req =
     ((case notion hist req of Inl m \<Rightarrow> Inl (Error m) | Inr response \<Rightarrow> Inr response),
      hist @ [req])"

text \<open>
  A stand-in for the client that answers the calls, in the order they are made, from a
  list of outcomes.
\<close>

definition scripted :: "(string + jsval) list \<Rightarrow> notion" where
  "scripted answers hist req =
     (if length hist < length answers then answers ! length hist
      else Inl ''no answer scripted'')"

text \<open>The argument spread \<open>...v\<close> of \<open>blocks.push(...v)\<close>.\<close>

definition js_spread :: "jsval \<Rightarrow> js_error + jsval list" where
  "js_spread v =
     (case v of
        JArr xs \<Rightarrow> Inr xs
      | JStr s \<Rightarrow> Inr (map JStr (code_points s))
      | _ \<Rightarrow> Inl (TypeError (NotIterable v)))"

section \<open>getPageContent\<close>

text \<open>
  The \<open>do ... while (cursor)\<close> loop. Nothing bounds the number of its turns, so the
  result is an option: \<open>None\<close> is the loop that never ends.
\<close>

partial_function (option) fetch_blocks ::
  "notion \<Rightarrow> string \<Rightarrow> request list \<Rightarrow> jsval \<Rightarrow> jsval list \<Rightarrow>
     ((js_error + jsval list) \<times> request list) option" where
  "fetch_blocks notion pageId hist cursor blocks =
     (case call notion hist (BlocksChildrenList pageId cursor) of
        (Inl e, hist') \<Rightarrow> Some (Inl e, hist')
      | (Inr response, hist') \<Rightarrow>
          (case and_then (js_get response ''results'') js_spread of
             Inl e \<Rightarrow> Some (Inl e, hist')
           | Inr results \<Rightarrow>
               (case js_get response ''next_cursor'' of
                  Inl e \<Rightarrow> Some (Inl e, hist')
                | Inr next_cursor \<Rightarrow>
                    if truthy next_cursor
                    then fetch_blocks notion pageId hist' next_cursor (blocks @ results)
                    else Some (Inr (blocks @ results), hist'))))"

text \<open>
  The object getPageContent returns, with its keys \<open>page\<close>, \<open>properties\<close>,
  \<open>content\<close> and \<open>blocks\<close>.
\<close>

record page_data =
  data_page :: jsval
  data_properties :: "(string \<times> jsval) list"
  data_content :: string
  data_blocks :: "jsval list"

text \<open>The body of the \<open>try\<close>, then the function with its \<open>catch\<close>.\<close>

definition getPageContent_try ::
  "notion \<Rightarrow> request list \<Rightarrow> string \<Rightarrow> ((js_error + page_data) \<times> request list) option" where
  "getPageContent_try notion hist pageId =
     (case call notion hist (PagesRetrieve pageId) of
        (Inl e, hist1) \<Rightarrow> Some (Inl e, hist1)
      | (Inr page, hist1) \<Rightarrow>
          (case fetch_blocks notion pageId hist1 JUndefined [] of
             None \<Rightarrow> None
           | Some (Inl e, hist2) \<Rightarrow> Some (Inl e, hist2)
           | Some (Inr blocks, hist2) \<Rightarrow>
               Some (and_then (content_lines blocks) (\<lambda>content.
                     and_then (extractAllProperties page) (\<lambda>properties.
                       Inr \<lparr>data_page = page, data_properties = properties,
                            data_content = join_strs MARKDOWN_SYMBOLS_DOUBLE_NEWLINE content,
                            data_blocks = blocks\<rparr>)),
                     hist2)))"

text \<open>
  The \<open>catch\<close> blocks: a new \<open>Error\<close> whose message is a fixed context followed by
  the message of the error caught.
\<close>

definition rethrow :: "(type_fault \<Rightarrow> string) \<Rightarrow> string \<Rightarrow> js_error + 'a \<Rightarrow> js_error + 'a" where
  "rethrow engine context r =
     (case r of Inl e \<Rightarrow> Inl (Error (context @ message engine e)) | Inr v \<Rightarrow> Inr v)"

definition getPageContent ::
  "(type_fault \<Rightarrow> string) \<Rightarrow> notion \<Rightarrow> request list \<Rightarrow> string \<Rightarrow>
     ((js_error + page_data) \<times> request list) option" where
  "getPageContent engine notion hist pageId =
     map_option (\<lambda>(r, hist'). (rethrow engine ''Failed to get page content: '' r, hist'))
       (getPageContent_try notion hist pageId)"

section \<open>The two tools\<close>

text \<open>
  The value that the text \<open>JSON.stringify(v, null, 2)\<close> denotes, that is, what a client
  parses from it: a key whose value is \<open>undefined\<close> is left out of an object,
  \<open>undefined\<close> in an array becomes \<open>null\<close>, and so does a number that is not finite.
  The model stops at this value; the tool's result wraps its text.
\<close>

fun json_value :: "jsval \<Rightarrow> jsval" where
  "json_value (JNum n) =
     (if n = ''NaN'' \<or> n = ''Infinity'' \<or> n = ''-Infinity'' then JNull else JNum n)"
| "json_value (JArr xs) =
     JArr (map (\<lambda>x. if x = JUndefined then JNull else json_value x) xs)"
| "json_value (JObj kvs) =
     JObj (map (\<lambda>(k, v). (k, json_value v)) (filter (\<lambda>(k, v). v \<noteq> JUndefined) kvs))"
| "json_value v = v"

text \<open>The callback of \<open>response.results.map\<close> in the search tool.\<close>

definition search_result :: "jsval \<Rightarrow> js_error + jsval" where
  "search_result page =
     and_then (js_get page ''id'') (\<lambda>page_id.
     and_then (js_get page ''url'') (\<lambda>url.
     and_then (js_get page ''created_time'') (\<lambda>created_time.
     and_then (js_get page ''last_edited_time'') (\<lambda>last_edited_time.
     and_then (extractAllProperties page) (\<lambda>properties.
       Inr (JObj [(''id'', page_id), (''url'', url), (''created_time'', created_time),
                  (''last_edited_time'', last_edited_time),
                  (''properties'', JObj properties)]))))))"

definition search_notion ::
  "(type_fault \<Rightarrow> string) \<Rightarrow> notion \<Rightarrow> request list \<Rightarrow> string \<Rightarrow>
     (js_error + jsval) \<times> request list" where
  "search_notion engine notion hist query =
     (case call notion hist (Search query ''object'' ''page'') of
        (r, hist') \<Rightarrow>
          (rethrow engine ''Failed to search Notion: ''
             (and_then r (\<lambda>response.
              and_then (js_get response ''results'') (\<lambda>pages.
              and_then (js_map pages search_result) (\<lambda>results.
                Inr (json_value
                  (JObj [(''query'', JStr query),
                         (''total_results'', JNum (decimal (length results))),
                         (''results'', JArr results)])))))),
           hist'))"

definition get_notion_page ::
  "(type_fault \<Rightarrow> string) \<Rightarrow> notion \<Rightarrow> request list \<Rightarrow> string \<Rightarrow>
     ((js_error + jsval) \<times> request list) option" where
  "get_notion_page engine notion hist page_id =
     map_option (\<lambda>(r, hist').
         (rethrow engine ''Failed to get page: ''
            (and_then r (\<lambda>pageData.
             and_then (js_get (data_page pageData) ''url'') (\<lambda>url.
               Inr (json_value
                 (JObj [(''page_id'', JStr page_id),
                        (''url'', url),
                        (''properties'', JObj (data_properties pageData)),
                        (''content'', JStr (data_content pageData)),
                        (''total_blocks'', JNum (decimal (length (data_blocks pageData))))]))))),
          hist'))
       (getPageContent engine notion hist page_id)"

text \<open>
  The twelve enumerated property kinds, and the table of defaults that
  \<open>normalize_property\<close> is compared with: what stands for a property whose sub-field
  (the one named by its kind) is absent.
\<close>

definition property_kinds :: "string list" where
  "property_kinds =
     [''title'', ''rich_text'', ''number'', ''select'', ''multi_select'', ''date'', ''checkbox'',
      ''url'', ''email'', ''phone_number'', ''people'', ''relation'']"

definition absent_default :: "string \<Rightarrow> jsval" where
  "absent_default kind =
     (if kind = ''title'' \<or> kind = ''rich_text'' then JStr []
      else if kind = ''select'' \<or> kind = ''date'' then JNull
      else if kind = ''multi_select'' \<or> kind = ''people'' \<or> kind = ''relation'' then JArr []
      else JUndefined)"

section \<open>Basic facts\<close>

lemma and_then_Inr [simp]: "and_then (Inr v) f = f v"
  by (simp add: and_then_def)

lemma and_then_Inl [simp]: "and_then (Inl e) f = Inl e"
  by (simp add: and_then_def)

lemma collect_map_Inr: "list_all2 (\<lambda>x y. f x = Inr y) xs ys \<Longrightarrow> collect (map f xs) = Inr ys"
  by (induction xs ys rule: list_all2_induct) simp_all

lemma collect_Inr_length: "collect rs = Inr vs \<Longrightarrow> length vs = length rs"
  by (induction rs arbitrary: vs) (auto split: sum.splits)

lemma join_strs_empty_sep: "join_strs [] ss = concat ss"
  by (induction "[] :: string" ss rule: join_strs.induct) simp_all

lemma js_join_strings: "js_join [] (map JStr ts) = Inr (concat ts)"
proof -
  have "collect (map (\<lambda>x. if nullish x then Inr [] else ToString x) (map JStr ts)) = Inr ts"
    by (induction ts) (simp_all add: nullish_def)
  then show ?thesis
    by (simp add: js_join_def join_strs_empty_sep)
qed

lemma plain_texts_runs:
  assumes "list_all2 (\<lambda>r t. js_get r ''plain_text'' = Inr (JStr t)) runs texts"
  shows "plain_texts (JArr runs) = Inr (concat texts)"
proof -
  from assms have "list_all2 (\<lambda>r v. js_get r ''plain_text'' = Inr v) runs (map JStr texts)"
    by (simp add: list_all2_map2)
  then have "collect (map (\<lambda>t. js_get t ''plain_text'') runs) = Inr (map JStr texts)"
    by (rule collect_map_Inr)
  then show ?thesis
    by (simp add: plain_texts_def js_map_def js_join_strings)
qed

lemma digits: "d < 10 \<Longrightarrow> digit d \<in> set ''0123456789''"
proof -
  assume "d < 10"
  then have "d = (0::nat) \<or> d = 1 \<or> d = 2 \<or> d = 3 \<or> d = 4 \<or> d = 5 \<or> d = 6 \<or> d = 7 \<or> d = 8 \<or> d = 9"
    by arith
  then show ?thesis by (elim disjE) (simp_all add: digit_def)
qed
lemma decimal_digits: "set (decimal n) \<subseteq> set ''0123456789''"
proof (induction n rule: decimal.induct)
  case (1 n)
  show ?case
  proof (cases "n < 10")
    case True
    then show ?thesis using digits [of n] by (subst decimal.simps) simp
  next
    case False
    have "n mod 10 < 10" by simp
    from digits [OF this] 1 [OF False] False show ?thesis
      by (subst decimal.simps) simp
  qed
qed
lemma json_value_decimal [simp]: "json_value (JNum (decimal n)) = JNum (decimal n)"
proof -
  have "CHR ''N'' \<notin> set (decimal n)" "CHR ''I'' \<notin> set (decimal n)"
    using decimal_digits [of n] by auto
  then have "decimal n \<noteq> ''NaN''" "decimal n \<noteq> ''Infinity''" "decimal n \<noteq> ''-Infinity''"
    by auto
  then show ?thesis by simp
qed
lemma decimal_finite [simp]:
  "decimal n \<noteq> ''NaN''" "decimal n \<noteq> ''Infinity''" "decimal n \<noteq> ''-Infinity''"
proof -
  have "CHR ''N'' \<notin> set (decimal n)" "CHR ''I'' \<notin> set (decimal n)"
    using decimal_digits [of n] by auto
  then show "decimal n \<noteq> ''NaN''" "decimal n \<noteq> ''Infinity''" "decimal n \<noteq> ''-Infinity''"
    by auto
qed

section \<open>The renderer against the table of section 4.2\<close>

lemma block_text_payload:
  assumes "js_get block kind = Inr payload"
    and "js_get payload ''rich_text'' = Inr (JArr runs)"
    and "list_all2 (\<lambda>r t. js_get r ''plain_text'' = Inr (JStr t)) runs texts"
  shows "block_text block kind = Inr (concat texts)"
  using assms by (simp add: block_text_def plain_texts_runs)

lemmas symbols = MARKDOWN_SYMBOLS_H1_def MARKDOWN_SYMBOLS_H2_def MARKDOWN_SYMBOLS_H3_def
  MARKDOWN_SYMBOLS_BULLET_def MARKDOWN_SYMBOLS_NUMBER_def MARKDOWN_SYMBOLS_CHECKED_def
  MARKDOWN_SYMBOLS_UNCHECKED_def MARKDOWN_SYMBOLS_TOGGLE_def MARKDOWN_SYMBOLS_QUOTE_def
  MARKDOWN_SYMBOLS_DIVIDER_def MARKDOWN_SYMBOLS_CODE_BLOCK_START_def MARKDOWN_SYMBOLS_NEWLINE_def
  MARKDOWN_SYMBOLS_CODE_BLOCK_END_def MARKDOWN_SYMBOLS_DOUBLE_NEWLINE_def

lemma render_documented:
  assumes ty: "js_get block ''type'' = Inr (JStr kind)"
    and payload: "kind \<in> set text_kinds \<Longrightarrow>
        js_get block kind = Inr payload \<and> js_get payload ''rich_text'' = Inr (JArr runs) \<and>
        list_all2 (\<lambda>r t. js_get r ''plain_text'' = Inr (JStr t)) runs texts"
    and todo: "kind = ''to_do'' \<Longrightarrow> js_get payload ''checked'' = Inr (JBool checked)"
    and code: "kind = ''code'' \<Longrightarrow> js_get payload ''language'' = Inr (JStr language)"
  shows "render block = Inr (table_4_2 kind checked language (concat texts))"
proof (cases "kind \<in> set text_kinds")
  case True
  with payload have bt: "block_text block kind = Inr (concat texts)"
    and p: "js_get block kind = Inr payload"
    by (simp_all add: block_text_payload)
  from True have "kind = ''paragraph'' \<or> kind = ''heading_1'' \<or> kind = ''heading_2''
    \<or> kind = ''heading_3'' \<or> kind = ''bulleted_list_item'' \<or> kind = ''numbered_list_item''
    \<or> kind = ''to_do'' \<or> kind = ''toggle'' \<or> kind = ''code'' \<or> kind = ''quote''"
    unfolding text_kinds_def by simp
  then show ?thesis
    using ty bt p todo code
    by (elim disjE) (simp_all add: render_def table_4_2_def prefixed_def symbols)
next
  case False
  then show ?thesis
    using ty by (simp add: render_def table_4_2_def text_kinds_def symbols)
qed


text \<open>
  C1. A block of one of the eleven kinds of the table that carries its documented
  payload (a payload object under the key named by its kind, holding the array
  \<open>rich_text\<close> of runs with a text \<open>plain_text\<close> each, for \<open>to_do\<close> the boolean
  \<open>checked\<close>, for \<open>code\<close> the text \<open>language\<close>) renders to exactly the row of the
  table for its kind, applied to the concatenation of the runs' texts; a divider needs
  no payload; a block of any other kind renders to its kind between square brackets.
\<close>

theorem render_matches_table:
  assumes "js_get block ''type'' = Inr (JStr kind)"
    and "kind \<in> set text_kinds \<Longrightarrow>
        js_get block kind = Inr payload \<and> js_get payload ''rich_text'' = Inr (JArr runs) \<and>
        list_all2 (\<lambda>r t. js_get r ''plain_text'' = Inr (JStr t)) runs texts"
    and "kind = ''to_do'' \<Longrightarrow> js_get payload ''checked'' = Inr (JBool checked)"
    and "kind = ''code'' \<Longrightarrow> js_get payload ''language'' = Inr (JStr language)"
  shows "render block = Inr (table_4_2 kind checked language (concat texts))"
  using assms by (rule render_documented)

theorem render_matches_table_witness:
  "render (JObj [(''type'', JStr ''heading_2''),
                 (''heading_2'', JObj [(''rich_text'', JArr [JObj [(''plain_text'', JStr ''Intro'')]])])])
     = Inr ''## Intro''
   \<and> render (JObj [(''type'', JStr ''to_do''),
                 (''to_do'', JObj [(''checked'', JBool False),
                                   (''rich_text'', JArr [JObj [(''plain_text'', JStr ''Buy milk'')]])])])
     = Inr ([CHR 0xE2, CHR 0x97, CHR 0x8B] @ '' Buy milk'')
   \<and> render (JObj [(''type'', JStr ''code''),
                 (''code'', JObj [(''language'', JStr ''javascript''),
                                  (''rich_text'', JArr [JObj [(''plain_text'', JStr ''let x = '')],
                                                             JObj [(''plain_text'', JStr ''1'')]])])])
     = Inr (''```javascript'' @ [CHR 0x0A] @ ''let x = 1'' @ [CHR 0x0A] @ ''```'')
   \<and> render (JObj [(''type'', JStr ''image''), (''image'', JObj [])]) = Inr ''[image]''"
proof -
  have a: "render (JObj [(''type'', JStr ''heading_2''),
                 (''heading_2'', JObj [(''rich_text'', JArr [JObj [(''plain_text'', JStr ''Intro'')]])])])
     = Inr (table_4_2 ''heading_2'' False [] (concat [''Intro'']))"
    by (rule render_matches_table
          [where payload = "JObj [(''rich_text'', JArr [JObj [(''plain_text'', JStr ''Intro'')]])]"
             and runs = "[JObj [(''plain_text'', JStr ''Intro'')]]"])
       simp_all
  have b: "render (JObj [(''type'', JStr ''to_do''),
                 (''to_do'', JObj [(''checked'', JBool False),
                                   (''rich_text'', JArr [JObj [(''plain_text'', JStr ''Buy milk'')]])])])
     = Inr (table_4_2 ''to_do'' False [] (concat [''Buy milk'']))"
    by (rule render_matches_table
          [where payload = "JObj [(''checked'', JBool False),
                                   (''rich_text'', JArr [JObj [(''plain_text'', JStr ''Buy milk'')]])]"
             and runs = "[JObj [(''plain_text'', JStr ''Buy milk'')]]"])
       simp_all
  have c: "render (JObj [(''type'', JStr ''code''),
                 (''code'', JObj [(''language'', JStr ''javascript''),
                                  (''rich_text'', JArr [JObj [(''plain_text'', JStr ''let x = '')],
                                                             JObj [(''plain_text'', JStr ''1'')]])])])
     = Inr (table_4_2 ''code'' False ''javascript'' (concat [''let x = '', ''1'']))"
    by (rule render_matches_table
          [where payload = "JObj [(''language'', JStr ''javascript''),
                                  (''rich_text'', JArr [JObj [(''plain_text'', JStr ''let x = '')],
                                                             JObj [(''plain_text'', JStr ''1'')]])]"
             and runs = "[JObj [(''plain_text'', JStr ''let x = '')], JObj [(''plain_text'', JStr ''1'')]]"])
       simp_all
  have d: "render (JObj [(''type'', JStr ''image''), (''image'', JObj [])])
     = Inr (table_4_2 ''image'' False [] (concat []))"
    by (rule render_matches_table) (simp_all add: text_kinds_def)
  from a b c d show ?thesis
    by (simp add: table_4_2_def)
qed

lemma render_no_payload:
  assumes ty: "js_get block ''type'' = Inr (JStr kind)"
    and kind: "kind \<in> set text_kinds"
    and absent: "js_get block kind = Inr p" "nullish p"
  shows "\<exists>t. render block = Inl (TypeError t)"
proof -
  from absent have g: "\<And>k. \<exists>t. js_get p k = Inl (TypeError t)"
    by (auto simp: nullish_def)
  have bt: "\<exists>t. block_text block kind = Inl (TypeError t)"
    using absent(1) g [of "''rich_text''"] by (auto simp: block_text_def)
  from kind have "kind = ''paragraph'' \<or> kind = ''heading_1'' \<or> kind = ''heading_2''
    \<or> kind = ''heading_3'' \<or> kind = ''bulleted_list_item'' \<or> kind = ''numbered_list_item''
    \<or> kind = ''to_do'' \<or> kind = ''toggle'' \<or> kind = ''code'' \<or> kind = ''quote''"
    unfolding text_kinds_def by simp
  then show ?thesis
    using ty bt absent(1) g [of "''checked''"] g [of "''language''"]
    by (elim disjE) (auto simp: render_def prefixed_def)
qed

lemma collect_Inl: "collect rs = Inl e \<Longrightarrow> Inl e \<in> set rs"
  by (induction rs) (auto split: sum.splits)

lemma ToString_throws: "ToString v = Inl e \<Longrightarrow> e = TypeError NoPrimitive"
proof (induction v rule: ToString.induct)
  case (6 xs)
  then have "collect (map (\<lambda>x. if x = JUndefined \<or> x = JNull then Inr [] else ToString x) xs) = Inl e"
    by (auto simp: and_then_def split: sum.splits)
  then have "Inl e \<in> set (map (\<lambda>x. if x = JUndefined \<or> x = JNull then Inr [] else ToString x) xs)"
    by (rule collect_Inl)
  then obtain x where "x \<in> set xs" "x \<noteq> JUndefined" "x \<noteq> JNull" "ToString x = Inl e"
    by (auto split: if_splits)
  with 6 show ?case by blast
qed (auto split: if_splits)

lemma render_no_rich_text:
  assumes ty: "js_get block ''type'' = Inr (JStr kind)"
    and kind: "kind \<in> set text_kinds"
    and payload: "js_get block kind = Inr p"
    and absent: "js_get p ''rich_text'' = Inr x" "nullish x"
  shows "\<exists>t. render block = Inl (TypeError t)"
proof -
  from absent(2) have "\<exists>t. plain_texts x = Inl (TypeError t)"
    by (auto simp: nullish_def plain_texts_def js_map_def)
  with payload absent(1) have bt: "\<exists>t. block_text block kind = Inl (TypeError t)"
    by (auto simp: block_text_def)
  have g: "\<And>k. \<exists>v. js_get p k = Inr v"
    using absent(1) by (cases p) auto
  have ts: "\<And>v. (\<exists>s. ToString v = Inr s) \<or> (\<exists>t. ToString v = Inl (TypeError t))"
    by (metis ToString_throws sum.exhaust_sel sum.collapse)
  from kind have "kind = ''paragraph'' \<or> kind = ''heading_1'' \<or> kind = ''heading_2''
    \<or> kind = ''heading_3'' \<or> kind = ''bulleted_list_item'' \<or> kind = ''numbered_list_item''
    \<or> kind = ''to_do'' \<or> kind = ''toggle'' \<or> kind = ''code'' \<or> kind = ''quote''"
    unfolding text_kinds_def by simp
  then show ?thesis
  proof (elim disjE)
    assume k: "kind = ''code''"
    obtain l where l: "js_get p ''language'' = Inr l" using g by blast
    from ts [of l] show ?thesis
      using ty bt payload l k by (auto simp: render_def)
  next
    assume k: "kind = ''to_do''"
    obtain c where c: "js_get p ''checked'' = Inr c" using g by blast
    show ?thesis
      using ty bt payload c k by (auto simp: render_def prefixed_def Let_def)
  qed (use ty bt in \<open>auto simp: render_def prefixed_def\<close>)
qed

text \<open>
  C2, as the code has it. A paragraph without its payload object makes \<open>render\<close> throw:
  the renderer reads \<open>rich_text\<close> of \<open>undefined\<close>.
\<close>

theorem render_paragraph_without_payload_throws:
  "render (JObj [(''type'', JStr ''paragraph'')])
     = Inl (TypeError (NullishRead JUndefined ''rich_text''))"
  by (simp add: render_def block_text_def)

text \<open>
  C2, amended. \<open>render\<close> is a function of the block alone. It returns a text for a
  block of a kind outside the ten text kinds (a divider included) and for a block of a
  text kind that carries its documented payload. For a block of a text kind whose
  payload object is absent or \<open>null\<close>, or whose payload has no \<open>rich_text\<close>, it throws
  a \<open>TypeError\<close> instead of returning.
\<close>

theorem render_returns_or_throws:
  assumes "js_get block ''type'' = Inr (JStr kind)"
  shows "(kind \<notin> set text_kinds \<longrightarrow> (\<exists>s. render block = Inr s))
    \<and> (kind \<in> set text_kinds \<and> js_get block kind = Inr payload
         \<and> js_get payload ''rich_text'' = Inr (JArr runs)
         \<and> list_all2 (\<lambda>r t. js_get r ''plain_text'' = Inr (JStr t)) runs texts
         \<and> (kind = ''to_do'' \<longrightarrow> js_get payload ''checked'' = Inr (JBool checked))
         \<and> (kind = ''code'' \<longrightarrow> js_get payload ''language'' = Inr (JStr language))
        \<longrightarrow> (\<exists>s. render block = Inr s))
    \<and> (kind \<in> set text_kinds \<and> js_get block kind = Inr payload \<and> nullish payload
        \<longrightarrow> (\<exists>t. render block = Inl (TypeError t)))
    \<and> (kind \<in> set text_kinds \<and> js_get block kind = Inr payload
         \<and> js_get payload ''rich_text'' = Inr x \<and> nullish x
        \<longrightarrow> (\<exists>t. render block = Inl (TypeError t)))"
proof (intro conjI impI)
  assume "kind \<notin> set text_kinds"
  with assms have "render block = Inr (table_4_2 kind False [] (concat []))"
    by (intro render_documented) (simp_all add: text_kinds_def)
  then show "\<exists>s. render block = Inr s" ..
next
  assume a: "kind \<in> set text_kinds \<and> js_get block kind = Inr payload
         \<and> js_get payload ''rich_text'' = Inr (JArr runs)
         \<and> list_all2 (\<lambda>r t. js_get r ''plain_text'' = Inr (JStr t)) runs texts
         \<and> (kind = ''to_do'' \<longrightarrow> js_get payload ''checked'' = Inr (JBool checked))
         \<and> (kind = ''code'' \<longrightarrow> js_get payload ''language'' = Inr (JStr language))"
  with assms have "render block = Inr (table_4_2 kind checked language (concat texts))"
    by (intro render_documented [where payload = payload and runs = runs]) simp_all
  then show "\<exists>s. render block = Inr s" ..
next
  assume "kind \<in> set text_kinds \<and> js_get block kind = Inr payload \<and> nullish payload"
  with assms show "\<exists>t. render block = Inl (TypeError t)"
    by (auto intro: render_no_payload)
next
  assume "kind \<in> set text_kinds \<and> js_get block kind = Inr payload
         \<and> js_get payload ''rich_text'' = Inr x \<and> nullish x"
  with assms show "\<exists>t. render block = Inl (TypeError t)"
    by (auto intro: render_no_rich_text)
qed

theorem render_returns_or_throws_witness:
  "(\<exists>s. render (JObj [(''type'', JStr ''divider'')]) = Inr s)
   \<and> (\<exists>s. render (JObj [(''type'', JStr ''quote''),
                          (''quote'', JObj [(''rich_text'', JArr [JObj [(''plain_text'', JStr ''So it goes'')]])])])
          = Inr s)
   \<and> (\<exists>t. render (JObj [(''type'', JStr ''quote'')]) = Inl (TypeError t))
   \<and> (\<exists>t. render (JObj [(''type'', JStr ''quote''), (''quote'', JObj [])]) = Inl (TypeError t))"
proof -
  have a: "\<exists>s. render (JObj [(''type'', JStr ''divider'')]) = Inr s"
    using render_returns_or_throws [of "JObj [(''type'', JStr ''divider'')]" "''divider''"]
    by (simp add: text_kinds_def)
  have b: "\<exists>s. render (JObj [(''type'', JStr ''quote''),
                          (''quote'', JObj [(''rich_text'', JArr [JObj [(''plain_text'', JStr ''So it goes'')]])])])
          = Inr s"
    using render_returns_or_throws
      [where block = "JObj [(''type'', JStr ''quote''),
                          (''quote'', JObj [(''rich_text'', JArr [JObj [(''plain_text'', JStr ''So it goes'')]])])]"
         and kind = "''quote''"
         and payload = "JObj [(''rich_text'', JArr [JObj [(''plain_text'', JStr ''So it goes'')]])]"
         and runs = "[JObj [(''plain_text'', JStr ''So it goes'')]]" and texts = "[''So it goes'']"]
    by (simp add: text_kinds_def)
  have c: "\<exists>t. render (JObj [(''type'', JStr ''quote'')]) = Inl (TypeError t)"
    using render_returns_or_throws [of "JObj [(''type'', JStr ''quote'')]" "''quote''" JUndefined]
    by (simp add: text_kinds_def nullish_def)
  have d: "\<exists>t. render (JObj [(''type'', JStr ''quote''), (''quote'', JObj [])]) = Inl (TypeError t)"
    using render_returns_or_throws
      [where block = "JObj [(''type'', JStr ''quote''), (''quote'', JObj [])]" and kind = "''quote''"
         and payload = "JObj []" and x = JUndefined]
    by (simp add: text_kinds_def nullish_def)
  from a b c d show ?thesis by simp
qed

section \<open>Rendering a page's blocks\<close>

lemma render_all_lines:
  "list_all2 (\<lambda>b l. render b = Inr l) bs lines \<Longrightarrow> render_all bs = Inr lines"
  unfolding render_all_def by (rule collect_map_Inr)

section \<open>The property normalizer\<close>

lemma js_map_array:
  "list_all2 (\<lambda>x y. f x = Inr y) xs ys \<Longrightarrow> js_map (JArr xs) f = Inr ys"
  by (simp add: js_map_def collect_map_Inr)

lemma opt_map_array:
  "list_all2 (\<lambda>x y. f x = Inr y) xs ys \<Longrightarrow> opt_map (JArr xs) f = Inr (Some ys)"
  by (simp add: opt_map_def nullish_def js_map_array)

lemma opt_map_absent [simp]: "opt_map JUndefined f = Inr None"
  by (simp add: opt_map_def nullish_def)

lemma opt_get_absent [simp]: "opt_get JUndefined k = Inr JUndefined"
  by (simp add: opt_get_def nullish_def)


text \<open>
  C3, as the code has it. A number property without its \<open>number\<close> sub-field is
  normalized to \<open>undefined\<close>, which is neither an empty string, nor \<open>null\<close>, nor an
  empty list.
\<close>

theorem number_without_value_is_undefined:
  "extractAllProperties (JObj [(''properties'', JObj [(''Price'', JObj [(''type'', JStr ''number'')])])])
     = Inr [(''Price'', JUndefined)]"
  by (simp add: extractAllProperties_def object_entries_def js_or_def normalize_property_def
        set_property_def)

lemma normalize_absent:
  assumes "js_get v ''type'' = Inr (JStr kind)" and "kind \<in> set property_kinds"
    and "js_get v kind = Inr JUndefined"
  shows "normalize_property v = Inr (absent_default kind)"
proof -
  from assms(2) have "kind = ''title'' \<or> kind = ''rich_text'' \<or> kind = ''number'' \<or> kind = ''select''
    \<or> kind = ''multi_select'' \<or> kind = ''date'' \<or> kind = ''checkbox'' \<or> kind = ''url''
    \<or> kind = ''email'' \<or> kind = ''phone_number'' \<or> kind = ''people'' \<or> kind = ''relation''"
    unfolding property_kinds_def by simp
  then show ?thesis
    using assms(1,3)
    by (elim disjE) (simp_all add: normalize_property_def absent_default_def js_or_def)
qed

lemma normalize_text:
  assumes "js_get v ''type'' = Inr (JStr kind)" and "kind = ''title'' \<or> kind = ''rich_text''"
    and "js_get v kind = Inr (JArr runs)"
    and "list_all2 (\<lambda>r t. js_get r ''plain_text'' = Inr (JStr t)) runs texts"
  shows "normalize_property v = Inr (JStr (concat texts))"
proof -
  from assms(4) have "list_all2 (\<lambda>r x. js_get r ''plain_text'' = Inr x) runs (map JStr texts)"
    by (simp add: list_all2_map2)
  then have "opt_map (JArr runs) (\<lambda>t. js_get t ''plain_text'') = Inr (Some (map JStr texts))"
    by (rule opt_map_array)
  then show ?thesis
    using assms(1,2,3)
    by (elim disjE) (simp_all add: normalize_property_def js_join_strings js_or_def)
qed

lemma normalize_raw:
  assumes "js_get v ''type'' = Inr (JStr kind)"
    and "kind \<in> {''number'', ''checkbox'', ''url'', ''email'', ''phone_number''}"
  shows "normalize_property v = js_get v kind"
proof -
  from assms(2) have "kind = ''number'' \<or> kind = ''checkbox'' \<or> kind = ''url''
      \<or> kind = ''email'' \<or> kind = ''phone_number''"
    by simp
  then show ?thesis
    using assms(1) by (elim disjE) (simp_all add: normalize_property_def)
qed

lemma normalize_select:
  assumes "js_get v ''type'' = Inr (JStr ''select'')" and "js_get v ''select'' = Inr x"
  shows "normalize_property v = and_then (opt_get x ''name'') (\<lambda>n. Inr (js_or n JNull))"
  using assms by (simp add: normalize_property_def)

lemma normalize_date:
  assumes "js_get v ''type'' = Inr (JStr ''date'')" and "js_get v ''date'' = Inr x"
  shows "normalize_property v = and_then (opt_get x ''start'') (\<lambda>n. Inr (js_or n JNull))"
  using assms by (simp add: normalize_property_def)

lemma opt_get_or_null:
  shows "and_then (opt_get JNull field) (\<lambda>n. Inr (js_or n JNull)) = Inr JNull"
    and "js_get x field = Inr (JStr s) \<Longrightarrow>
         and_then (opt_get x field) (\<lambda>n. Inr (js_or n JNull)) = Inr (if s = [] then JNull else JStr s)"
proof -
  show "and_then (opt_get JNull field) (\<lambda>n. Inr (js_or n JNull)) = Inr JNull"
    by (simp add: opt_get_def nullish_def js_or_def)
next
  assume a: "js_get x field = Inr (JStr s)"
  then have "\<not> nullish x" by (auto simp: nullish_def)
  with a show "and_then (opt_get x field) (\<lambda>n. Inr (js_or n JNull)) = Inr (if s = [] then JNull else JStr s)"
    by (simp add: opt_get_def js_or_def)
qed

lemma normalize_list:
  assumes "js_get v ''type'' = Inr (JStr kind)"
    and "js_get v kind = Inr (JArr xs)"
  shows "kind = ''multi_select'' \<Longrightarrow> list_all2 (\<lambda>x n. js_get x ''name'' = Inr n) xs ys
           \<Longrightarrow> normalize_property v = Inr (JArr ys)"
    and "kind = ''relation'' \<Longrightarrow> list_all2 (\<lambda>x i. js_get x ''id'' = Inr i) xs ys
           \<Longrightarrow> normalize_property v = Inr (JArr ys)"
    and "kind = ''people'' \<Longrightarrow>
           list_all2 (\<lambda>x (n, i). js_get x ''name'' = Inr n \<and> js_get x ''id'' = Inr i) xs nis
           \<Longrightarrow> normalize_property v = Inr (JArr (map (\<lambda>(n, i). js_or n i) nis))"
proof -
  assume "kind = ''multi_select''" "list_all2 (\<lambda>x n. js_get x ''name'' = Inr n) xs ys"
  then show "normalize_property v = Inr (JArr ys)"
    using assms by (simp add: normalize_property_def opt_map_array js_or_def)
next
  assume "kind = ''relation''" "list_all2 (\<lambda>x i. js_get x ''id'' = Inr i) xs ys"
  then show "normalize_property v = Inr (JArr ys)"
    using assms by (simp add: normalize_property_def opt_map_array js_or_def)
next
  assume k: "kind = ''people''"
    and a: "list_all2 (\<lambda>x (n, i). js_get x ''name'' = Inr n \<and> js_get x ''id'' = Inr i) xs nis"
  have "list_all2 (\<lambda>x y. and_then (js_get x ''name'') (\<lambda>n. if truthy n then Inr n else js_get x ''id'') = Inr y)
          xs (map (\<lambda>(n, i). js_or n i) nis)"
    using a by (induction xs nis rule: list_all2_induct) (auto simp: js_or_def)
  then have "opt_map (JArr xs) (\<lambda>p. and_then (js_get p ''name'') (\<lambda>n. if truthy n then Inr n else js_get p ''id''))
     = Inr (Some (map (\<lambda>(n, i). js_or n i) nis))"
    by (rule opt_map_array)
  then show "normalize_property v = Inr (JArr (map (\<lambda>(n, i). js_or n i) nis))"
    using assms k by (simp add: normalize_property_def js_or_def)
qed

text \<open>
  C3, amended. A well-formed value normalizes to the documented shape: title and
  rich_text to the concatenation of the runs' texts, number, checkbox, url, email and
  phone_number to the raw sub-field, select to the option's name and date to the start
  (\<open>null\<close> for no option or date, and for an empty name or start), multi_select to the
  options' names, people to each person's name or else id, relation to the targets' ids.
  When the sub-field named by the kind is absent the result is the empty string (title,
  rich_text), \<open>null\<close> (select, date), the empty list (multi_select, people, relation) or
  \<open>undefined\<close> (number, checkbox, url, email, phone_number), and nothing is thrown.
\<close>

theorem normalize_shapes_and_defaults:
  assumes "js_get v ''type'' = Inr (JStr kind)"
  shows "(kind \<in> set property_kinds \<and> js_get v kind = Inr JUndefined \<longrightarrow>
            normalize_property v = Inr (absent_default kind))
    \<and> ((kind = ''title'' \<or> kind = ''rich_text'') \<and> js_get v kind = Inr (JArr runs)
         \<and> list_all2 (\<lambda>r t. js_get r ''plain_text'' = Inr (JStr t)) runs texts \<longrightarrow>
            normalize_property v = Inr (JStr (concat texts)))
    \<and> (kind \<in> {''number'', ''checkbox'', ''url'', ''email'', ''phone_number''}
         \<and> js_get v kind = Inr x \<longrightarrow>
            normalize_property v = Inr x)
    \<and> ((kind = ''select'' \<or> kind = ''date'') \<and> js_get v kind = Inr JNull \<longrightarrow>
            normalize_property v = Inr JNull)
    \<and> (kind = ''select'' \<and> js_get v ''select'' = Inr option
         \<and> js_get option ''name'' = Inr (JStr name) \<longrightarrow>
            normalize_property v = Inr (if name = [] then JNull else JStr name))
    \<and> (kind = ''date'' \<and> js_get v ''date'' = Inr date
         \<and> js_get date ''start'' = Inr (JStr start) \<longrightarrow>
            normalize_property v = Inr (if start = [] then JNull else JStr start))
    \<and> (kind = ''multi_select'' \<and> js_get v ''multi_select'' = Inr (JArr options)
         \<and> list_all2 (\<lambda>option n. js_get option ''name'' = Inr n) options names \<longrightarrow>
            normalize_property v = Inr (JArr names))
    \<and> (kind = ''people'' \<and> js_get v ''people'' = Inr (JArr persons)
         \<and> list_all2 (\<lambda>person (n, i). js_get person ''name'' = Inr n \<and> js_get person ''id'' = Inr i)
              persons names_ids \<longrightarrow>
            normalize_property v = Inr (JArr (map (\<lambda>(n, i). js_or n i) names_ids)))
    \<and> (kind = ''relation'' \<and> js_get v ''relation'' = Inr (JArr targets)
         \<and> list_all2 (\<lambda>target i. js_get target ''id'' = Inr i) targets ids \<longrightarrow>
            normalize_property v = Inr (JArr ids))"
proof (intro conjI impI)
  assume "kind \<in> set property_kinds \<and> js_get v kind = Inr JUndefined"
  with assms show "normalize_property v = Inr (absent_default kind)"
    by (simp add: normalize_absent)
next
  assume "(kind = ''title'' \<or> kind = ''rich_text'') \<and> js_get v kind = Inr (JArr runs)
         \<and> list_all2 (\<lambda>r t. js_get r ''plain_text'' = Inr (JStr t)) runs texts"
  with assms show "normalize_property v = Inr (JStr (concat texts))"
    by (intro normalize_text [where runs = runs and kind = kind]) simp_all
next
  assume a: "kind \<in> {''number'', ''checkbox'', ''url'', ''email'', ''phone_number''}
         \<and> js_get v kind = Inr x"
  with assms have "normalize_property v = js_get v kind"
    by (intro normalize_raw) simp_all
  with a show "normalize_property v = Inr x" by simp
next
  assume a: "(kind = ''select'' \<or> kind = ''date'') \<and> js_get v kind = Inr JNull"
  then have k: "kind = ''select'' \<or> kind = ''date''" and n: "js_get v kind = Inr JNull"
    by simp_all
  from k show "normalize_property v = Inr JNull"
  proof
    assume "kind = ''select''"
    with assms n show ?thesis
      by (simp add: normalize_select [where x = JNull] opt_get_or_null(1))
  next
    assume "kind = ''date''"
    with assms n show ?thesis
      by (simp add: normalize_date [where x = JNull] opt_get_or_null(1))
  qed
next
  assume "kind = ''select'' \<and> js_get v ''select'' = Inr option
         \<and> js_get option ''name'' = Inr (JStr name)"
  with assms show "normalize_property v = Inr (if name = [] then JNull else JStr name)"
    by (simp add: normalize_select [where x = option] opt_get_or_null(2))
next
  assume "kind = ''date'' \<and> js_get v ''date'' = Inr date
         \<and> js_get date ''start'' = Inr (JStr start)"
  with assms show "normalize_property v = Inr (if start = [] then JNull else JStr start)"
    by (simp add: normalize_date [where x = date] opt_get_or_null(2))
next
  assume "kind = ''multi_select'' \<and> js_get v ''multi_select'' = Inr (JArr options)
         \<and> list_all2 (\<lambda>option n. js_get option ''name'' = Inr n) options names"
  with assms show "normalize_property v = Inr (JArr names)"
    by (intro normalize_list(1) [where xs = options and kind = kind]) simp_all
next
  assume "kind = ''people'' \<and> js_get v ''people'' = Inr (JArr persons)
         \<and> list_all2 (\<lambda>person (n, i). js_get person ''name'' = Inr n \<and> js_get person ''id'' = Inr i)
              persons names_ids"
  with assms show "normalize_property v = Inr (JArr (map (\<lambda>(n, i). js_or n i) names_ids))"
    by (intro normalize_list(3) [where xs = persons and kind = kind]) simp_all
next
  assume "kind = ''relation'' \<and> js_get v ''relation'' = Inr (JArr targets)
         \<and> list_all2 (\<lambda>target i. js_get target ''id'' = Inr i) targets ids"
  with assms show "normalize_property v = Inr (JArr ids)"
    by (intro normalize_list(2) [where xs = targets and kind = kind]) simp_all
qed

theorem normalize_shapes_and_defaults_witness:
  "normalize_property (JObj [(''type'', JStr ''checkbox''), (''checkbox'', JBool True)]) = Inr (JBool True)
   \<and> normalize_property
       (JObj [(''type'', JStr ''multi_select''),
              (''multi_select'', JArr [JObj [(''name'', JStr ''A'')], JObj [(''name'', JStr ''B'')]])])
     = Inr (JArr [JStr ''A'', JStr ''B''])
   \<and> normalize_property
       (JObj [(''type'', JStr ''title''),
              (''title'', JArr [JObj [(''plain_text'', JStr ''Road'')], JObj [(''plain_text'', JStr ''map'')]])])
     = Inr (JStr ''Roadmap'')
   \<and> normalize_property (JObj [(''type'', JStr ''select''), (''select'', JNull)]) = Inr JNull
   \<and> normalize_property
       (JObj [(''type'', JStr ''select''), (''select'', JObj [(''name'', JStr ''High'')])])
     = Inr (JStr ''High'')
   \<and> normalize_property
       (JObj [(''type'', JStr ''date''), (''date'', JObj [(''start'', JStr ''2024-05-01'')])])
     = Inr (JStr ''2024-05-01'')
   \<and> normalize_property
       (JObj [(''type'', JStr ''people''),
              (''people'', JArr [JObj [(''id'', JStr ''u1''), (''name'', JStr ''Ada'')],
                                 JObj [(''id'', JStr ''u2'')]])])
     = Inr (JArr [JStr ''Ada'', JStr ''u2''])
   \<and> normalize_property
       (JObj [(''type'', JStr ''relation''), (''relation'', JArr [JObj [(''id'', JStr ''p7'')]])])
     = Inr (JArr [JStr ''p7''])
   \<and> normalize_property (JObj [(''type'', JStr ''select'')]) = Inr JNull
   \<and> normalize_property (JObj [(''type'', JStr ''url'')]) = Inr JUndefined"
proof -
  have a: "normalize_property (JObj [(''type'', JStr ''checkbox''), (''checkbox'', JBool True)])
      = Inr (JBool True)"
    using normalize_shapes_and_defaults
      [where v = "JObj [(''type'', JStr ''checkbox''), (''checkbox'', JBool True)]"
         and kind = "''checkbox''" and x = "JBool True"]
    by simp
  have b: "normalize_property
       (JObj [(''type'', JStr ''multi_select''),
              (''multi_select'', JArr [JObj [(''name'', JStr ''A'')], JObj [(''name'', JStr ''B'')]])])
     = Inr (JArr [JStr ''A'', JStr ''B''])"
    using normalize_shapes_and_defaults
      [where v = "JObj [(''type'', JStr ''multi_select''),
              (''multi_select'', JArr [JObj [(''name'', JStr ''A'')], JObj [(''name'', JStr ''B'')]])]"
         and kind = "''multi_select''"
         and options = "[JObj [(''name'', JStr ''A'')], JObj [(''name'', JStr ''B'')]]"
         and names = "[JStr ''A'', JStr ''B'']"]
    by simp
  have c: "normalize_property
       (JObj [(''type'', JStr ''title''),
              (''title'', JArr [JObj [(''plain_text'', JStr ''Road'')], JObj [(''plain_text'', JStr ''map'')]])])
     = Inr (JStr ''Roadmap'')"
    using normalize_shapes_and_defaults
      [where v = "JObj [(''type'', JStr ''title''),
              (''title'', JArr [JObj [(''plain_text'', JStr ''Road'')], JObj [(''plain_text'', JStr ''map'')]])]"
         and kind = "''title''"
         and runs = "[JObj [(''plain_text'', JStr ''Road'')], JObj [(''plain_text'', JStr ''map'')]]"
         and texts = "[''Road'', ''map'']"]
    by simp
  have d: "normalize_property (JObj [(''type'', JStr ''select''), (''select'', JNull)]) = Inr JNull"
    using normalize_shapes_and_defaults
      [where v = "JObj [(''type'', JStr ''select''), (''select'', JNull)]" and kind = "''select''"]
    by simp
  have e: "normalize_property
       (JObj [(''type'', JStr ''select''), (''select'', JObj [(''name'', JStr ''High'')])])
     = Inr (JStr ''High'')"
    using normalize_shapes_and_defaults
      [where v = "JObj [(''type'', JStr ''select''), (''select'', JObj [(''name'', JStr ''High'')])]"
         and kind = "''select''" and option = "JObj [(''name'', JStr ''High'')]" and name = "''High''"]
    by simp
  have f: "normalize_property
       (JObj [(''type'', JStr ''date''), (''date'', JObj [(''start'', JStr ''2024-05-01'')])])
     = Inr (JStr ''2024-05-01'')"
    using normalize_shapes_and_defaults
      [where v = "JObj [(''type'', JStr ''date''), (''date'', JObj [(''start'', JStr ''2024-05-01'')])]"
         and kind = "''date''" and date = "JObj [(''start'', JStr ''2024-05-01'')]"
         and start = "''2024-05-01''"]
    by simp
  have g: "normalize_property
       (JObj [(''type'', JStr ''people''),
              (''people'', JArr [JObj [(''id'', JStr ''u1''), (''name'', JStr ''Ada'')],
                                 JObj [(''id'', JStr ''u2'')]])])
     = Inr (JArr [JStr ''Ada'', JStr ''u2''])"
    using normalize_shapes_and_defaults
      [where v = "JObj [(''type'', JStr ''people''),
              (''people'', JArr [JObj [(''id'', JStr ''u1''), (''name'', JStr ''Ada'')],
                                 JObj [(''id'', JStr ''u2'')]])]"
         and kind = "''people''"
         and persons = "[JObj [(''id'', JStr ''u1''), (''name'', JStr ''Ada'')], JObj [(''id'', JStr ''u2'')]]"
         and names_ids = "[(JStr ''Ada'', JStr ''u1''), (JUndefined, JStr ''u2'')]"]
    by (simp add: js_or_def)
  have h: "normalize_property
       (JObj [(''type'', JStr ''relation''), (''relation'', JArr [JObj [(''id'', JStr ''p7'')]])])
     = Inr (JArr [JStr ''p7''])"
    using normalize_shapes_and_defaults
      [where v = "JObj [(''type'', JStr ''relation''), (''relation'', JArr [JObj [(''id'', JStr ''p7'')]])]"
         and kind = "''relation''" and targets = "[JObj [(''id'', JStr ''p7'')]]"
         and ids = "[JStr ''p7'']"]
    by simp
  have i: "normalize_property (JObj [(''type'', JStr ''select'')]) = Inr JNull"
    using normalize_shapes_and_defaults [of "JObj [(''type'', JStr ''select'')]" "''select''"]
    by (simp add: property_kinds_def absent_default_def)
  have j: "normalize_property (JObj [(''type'', JStr ''url'')]) = Inr JUndefined"
    using normalize_shapes_and_defaults [of "JObj [(''type'', JStr ''url'')]" "''url''"]
    by (simp add: property_kinds_def absent_default_def)
  from a b c d e f g h i j show ?thesis by simp
qed

text \<open>
  C4, as the code has it. A property named \<open>__proto__\<close> is lost: the assignment
  \<open>properties[key] = ...\<close> reaches the prototype setter instead of creating the key,
  so the output has one key fewer than the input.
\<close>

theorem proto_key_is_dropped:
  "extractAllProperties
     (JObj [(''properties'',
        JObj [(''__proto__'', JObj [(''type'', JStr ''checkbox''), (''checkbox'', JBool True)]),
              (''Done'', JObj [(''type'', JStr ''checkbox''), (''checkbox'', JBool False)])])])
   = Inr [(''Done'', JBool False)]"
  by (simp add: extractAllProperties_def object_entries_def js_or_def normalize_property_def
        set_property_def)

section \<open>Pagination and the failures of getPageContent\<close>

lemma fetch_blocks_step:
  assumes "notion hist (BlocksChildrenList pid cur) = Inr r"
    and "and_then (js_get r ''results'') js_spread = Inr bs"
    and "js_get r ''next_cursor'' = Inr c"
  shows "fetch_blocks notion pid hist cur acc =
     (if truthy c then fetch_blocks notion pid (hist @ [BlocksChildrenList pid cur]) c (acc @ bs)
      else Some (Inr (acc @ bs), hist @ [BlocksChildrenList pid cur]))"
  using assms by (subst fetch_blocks.simps) (simp add: call_def)

lemma fetch_blocks_rejected:
  assumes "notion hist (BlocksChildrenList pid cur) = Inl m"
  shows "fetch_blocks notion pid hist cur acc =
     Some (Inl (Error m), hist @ [BlocksChildrenList pid cur])"
  using assms by (subst fetch_blocks.simps) (simp add: call_def)

lemma fetch_blocks_pages:
  assumes "list_all2 (\<lambda>r (bs, c). and_then (js_get r ''results'') js_spread = Inr bs
              \<and> js_get r ''next_cursor'' = Inr c) rs pages"
    and "pages \<noteq> []"
    and "list_all truthy (butlast (map snd pages))"
    and "\<not> truthy (snd (last pages))"
    and "\<forall>i<length rs.
           notion (hist @ map (BlocksChildrenList pid) (take i (cur # map snd pages)))
             (BlocksChildrenList pid ((cur # map snd pages) ! i)) = Inr (rs ! i)"
  shows "fetch_blocks notion pid hist cur acc =
     Some (Inr (acc @ concat (map fst pages)),
           hist @ map (BlocksChildrenList pid) (cur # butlast (map snd pages)))"
  using assms(2-) assms(1)
proof (induction pages arbitrary: rs hist cur acc)
  case Nil
  then show ?case by simp
next
  case (Cons p ps)
  obtain bs c where p: "p = (bs, c)" by (cases p)
  from Cons.prems(5) p obtain r rs' where rs: "rs = r # rs'"
    and r: "and_then (js_get r ''results'') js_spread = Inr bs" "js_get r ''next_cursor'' = Inr c"
    and rest: "list_all2 (\<lambda>r (bs, c). and_then (js_get r ''results'') js_spread = Inr bs
              \<and> js_get r ''next_cursor'' = Inr c) rs' ps"
    by (auto simp: list_all2_Cons2)
  from Cons.prems(4) rs have first: "notion hist (BlocksChildrenList pid cur) = Inr r"
    by (auto dest: spec [where x = 0])
  have step: "fetch_blocks notion pid hist cur acc =
     (if truthy c then fetch_blocks notion pid (hist @ [BlocksChildrenList pid cur]) c (acc @ bs)
      else Some (Inr (acc @ bs), hist @ [BlocksChildrenList pid cur]))"
    using first r by (rule fetch_blocks_step)
  show ?case
  proof (cases ps)
    case Nil
    with Cons.prems(3) p have "\<not> truthy c" by simp
    with step Nil p show ?thesis by simp
  next
    case (Cons q qs)
    with Cons.prems(2) p have c: "truthy c" by simp
    have api: "\<forall>i<length rs'.
           notion ((hist @ [BlocksChildrenList pid cur])
                     @ map (BlocksChildrenList pid) (take i (c # map snd ps)))
             (BlocksChildrenList pid ((c # map snd ps) ! i)) = Inr (rs' ! i)"
    proof (intro allI impI)
      fix i assume "i < length rs'"
      then have "Suc i < length rs" by (simp add: rs)
      with Cons.prems(4) have
        "notion (hist @ map (BlocksChildrenList pid) (take (Suc i) (cur # map snd (p # ps))))
             (BlocksChildrenList pid ((cur # map snd (p # ps)) ! Suc i)) = Inr (rs ! Suc i)"
        by blast
      then show "notion ((hist @ [BlocksChildrenList pid cur])
                     @ map (BlocksChildrenList pid) (take i (c # map snd ps)))
             (BlocksChildrenList pid ((c # map snd ps) ! i)) = Inr (rs' ! i)"
        by (simp add: rs p)
    qed
    from Cons Cons.prems(2,3) have more: "ps \<noteq> []" "list_all truthy (butlast (map snd ps))"
      "\<not> truthy (snd (last ps))"
      by simp_all
    have "fetch_blocks notion pid (hist @ [BlocksChildrenList pid cur]) c (acc @ bs) =
       Some (Inr ((acc @ bs) @ concat (map fst ps)),
             (hist @ [BlocksChildrenList pid cur])
               @ map (BlocksChildrenList pid) (c # butlast (map snd ps)))"
      by (rule Cons.IH [OF more api rest])
    with step c p Cons show ?thesis by simp
  qed
qed

lemma fetch_blocks_fails:
  assumes "list_all2 (\<lambda>r (bs, c). and_then (js_get r ''results'') js_spread = Inr bs
              \<and> js_get r ''next_cursor'' = Inr c) rs pages"
    and "list_all truthy (map snd pages)"
    and "\<forall>i<length rs.
           notion (hist @ map (BlocksChildrenList pid) (take i (cur # map snd pages)))
             (BlocksChildrenList pid ((cur # map snd pages) ! i)) = Inr (rs ! i)"
    and "notion (hist @ map (BlocksChildrenList pid) (butlast (cur # map snd pages)))
             (BlocksChildrenList pid (last (cur # map snd pages))) = Inl m"
  shows "fetch_blocks notion pid hist cur acc =
     Some (Inl (Error m), hist @ map (BlocksChildrenList pid) (cur # map snd pages))"
  using assms(2-) assms(1)
proof (induction pages arbitrary: rs hist cur acc)
  case Nil
  then show ?case by (simp add: fetch_blocks_rejected)
next
  case (Cons p ps)
  obtain bs c where p: "p = (bs, c)" by (cases p)
  from Cons.prems(4) p obtain r rs' where rs: "rs = r # rs'"
    and r: "and_then (js_get r ''results'') js_spread = Inr bs" "js_get r ''next_cursor'' = Inr c"
    and rest: "list_all2 (\<lambda>r (bs, c). and_then (js_get r ''results'') js_spread = Inr bs
              \<and> js_get r ''next_cursor'' = Inr c) rs' ps"
    by (auto simp: list_all2_Cons2)
  from Cons.prems(2) rs have first: "notion hist (BlocksChildrenList pid cur) = Inr r"
    by (auto dest: spec [where x = 0])
  have step: "fetch_blocks notion pid hist cur acc =
     (if truthy c then fetch_blocks notion pid (hist @ [BlocksChildrenList pid cur]) c (acc @ bs)
      else Some (Inr (acc @ bs), hist @ [BlocksChildrenList pid cur]))"
    using first r by (rule fetch_blocks_step)
  from Cons.prems(1) p have c: "truthy c" and more: "list_all truthy (map snd ps)" by simp_all
  have api: "\<forall>i<length rs'.
         notion ((hist @ [BlocksChildrenList pid cur])
                   @ map (BlocksChildrenList pid) (take i (c # map snd ps)))
           (BlocksChildrenList pid ((c # map snd ps) ! i)) = Inr (rs' ! i)"
  proof (intro allI impI)
    fix i assume "i < length rs'"
    then have "Suc i < length rs" by (simp add: rs)
    with Cons.prems(2) have
      "notion (hist @ map (BlocksChildrenList pid) (take (Suc i) (cur # map snd (p # ps))))
           (BlocksChildrenList pid ((cur # map snd (p # ps)) ! Suc i)) = Inr (rs ! Suc i)"
      by blast
    then show "notion ((hist @ [BlocksChildrenList pid cur])
                   @ map (BlocksChildrenList pid) (take i (c # map snd ps)))
           (BlocksChildrenList pid ((c # map snd ps) ! i)) = Inr (rs' ! i)"
      by (simp add: rs p)
  qed
  from Cons.prems(3) p have fail:
    "notion ((hist @ [BlocksChildrenList pid cur])
               @ map (BlocksChildrenList pid) (butlast (c # map snd ps)))
         (BlocksChildrenList pid (last (c # map snd ps))) = Inl m"
    by simp
  have "fetch_blocks notion pid (hist @ [BlocksChildrenList pid cur]) c (acc @ bs) =
     Some (Inl (Error m),
           (hist @ [BlocksChildrenList pid cur]) @ map (BlocksChildrenList pid) (c # map snd ps))"
    by (rule Cons.IH [OF more api fail rest])
  with step c p show ?case by simp
qed


lemma listing_pages:
  assumes "list_all2 (\<lambda>r (bs, c). js_get r ''results'' = Inr (JArr bs)
              \<and> js_get r ''next_cursor'' = Inr c) rs pages"
  shows "list_all2 (\<lambda>r (bs, c). and_then (js_get r ''results'') js_spread = Inr bs
              \<and> js_get r ''next_cursor'' = Inr c) rs pages"
  using assms by (rule list_all2_mono) (auto simp: js_spread_def)

text \<open>
  C6. Let the client answer the block listings with N responses, in order, the first
  asked with an undefined cursor and each later one with the cursor of the response
  before it, where every response but the last carries a truthy \<open>next_cursor\<close> and
  the last a falsy one. Then the loop ends, having made exactly these N calls, and the
  blocks it has gathered are the responses' results, concatenated in order; their
  number is the sum of the responses' result counts.
\<close>

theorem pagination_concatenates_pages:
  assumes "list_all2 (\<lambda>r (bs, c). js_get r ''results'' = Inr (JArr bs)
              \<and> js_get r ''next_cursor'' = Inr c) rs pages"
    and "pages \<noteq> []"
    and "list_all truthy (butlast (map snd pages))"
    and "\<not> truthy (snd (last pages))"
    and "\<forall>i<length rs.
           notion (hist @ map (BlocksChildrenList pid) (take i (JUndefined # map snd pages)))
             (BlocksChildrenList pid ((JUndefined # map snd pages) ! i)) = Inr (rs ! i)"
  shows "fetch_blocks notion pid hist JUndefined [] =
       Some (Inr (concat (map fst pages)),
             hist @ map (BlocksChildrenList pid) (JUndefined # butlast (map snd pages)))
     \<and> length (concat (map fst pages)) = sum_list (map (\<lambda>(bs, c). length bs) pages)
     \<and> length (map (BlocksChildrenList pid) (JUndefined # butlast (map snd pages)))
         = length pages"
proof (intro conjI)
  show "fetch_blocks notion pid hist JUndefined [] =
       Some (Inr (concat (map fst pages)),
             hist @ map (BlocksChildrenList pid) (JUndefined # butlast (map snd pages)))"
    using fetch_blocks_pages [OF listing_pages [OF assms(1)] assms(2-5), of "[]"] by simp
  show "length (concat (map fst pages)) = sum_list (map (\<lambda>(bs, c). length bs) pages)"
    by (induction pages) auto
  from assms(2) show "length (map (BlocksChildrenList pid) (JUndefined # butlast (map snd pages)))
         = length pages"
    by (cases pages) simp_all
qed

theorem pagination_concatenates_pages_witness:
  "fetch_blocks
     (scripted
        [Inr (JObj [(''results'', JArr [JObj [(''id'', JStr ''b1'')], JObj [(''id'', JStr ''b2'')], JObj [(''id'', JStr ''b3'')]]),
                    (''next_cursor'', JStr ''abc'')]),
         Inr (JObj [(''results'', JArr [JObj [(''id'', JStr ''b4'')], JObj [(''id'', JStr ''b5'')]]), (''next_cursor'', JNull)])])
     ''page'' [] JUndefined []
   = Some (Inr [JObj [(''id'', JStr ''b1'')], JObj [(''id'', JStr ''b2'')], JObj [(''id'', JStr ''b3'')], JObj [(''id'', JStr ''b4'')], JObj [(''id'', JStr ''b5'')]],
           [BlocksChildrenList ''page'' JUndefined, BlocksChildrenList ''page'' (JStr ''abc'')])"
  using pagination_concatenates_pages
    [where rs = "[JObj [(''results'', JArr [JObj [(''id'', JStr ''b1'')], JObj [(''id'', JStr ''b2'')], JObj [(''id'', JStr ''b3'')]]),
                (''next_cursor'', JStr ''abc'')],
          JObj [(''results'', JArr [JObj [(''id'', JStr ''b4'')], JObj [(''id'', JStr ''b5'')]]), (''next_cursor'', JNull)]]"
       and pages = "[([JObj [(''id'', JStr ''b1'')], JObj [(''id'', JStr ''b2'')], JObj [(''id'', JStr ''b3'')]], JStr ''abc''),
                     ([JObj [(''id'', JStr ''b4'')], JObj [(''id'', JStr ''b5'')]], JNull)]"
       and notion = "scripted
        [Inr (JObj [(''results'', JArr [JObj [(''id'', JStr ''b1'')], JObj [(''id'', JStr ''b2'')], JObj [(''id'', JStr ''b3'')]]),
                    (''next_cursor'', JStr ''abc'')]),
         Inr (JObj [(''results'', JArr [JObj [(''id'', JStr ''b4'')], JObj [(''id'', JStr ''b5'')]]), (''next_cursor'', JNull)])]"
       and hist = "[]" and pid = "''page''"]
  by (simp add: All_less_Suc scripted_def)

lemma getPageContent_try_listing:
  assumes "notion hist (PagesRetrieve pid) = Inr page"
    and "fetch_blocks notion pid (hist @ [PagesRetrieve pid]) JUndefined [] = Some (r, hist')"
  shows "getPageContent_try notion hist pid =
     Some (and_then r (\<lambda>bs.
           and_then (content_lines bs) (\<lambda>content.
           and_then (extractAllProperties page) (\<lambda>properties.
             Inr \<lparr>data_page = page, data_properties = properties,
                  data_content = join_strs MARKDOWN_SYMBOLS_DOUBLE_NEWLINE content,
                  data_blocks = bs\<rparr>))), hist')"
  using assms by (cases r) (simp_all add: getPageContent_try_def call_def)

lemma getPageContent_try_rejected:
  assumes "notion hist (PagesRetrieve pid) = Inl m"
  shows "getPageContent_try notion hist pid = Some (Inl (Error m), hist @ [PagesRetrieve pid])"
  using assms by (simp add: getPageContent_try_def call_def)

lemma getPageContent_of_try:
  "getPageContent_try notion hist pid = Some (r, hist') \<Longrightarrow>
   getPageContent engine notion hist pid =
     Some (rethrow engine ''Failed to get page content: '' r, hist')"
  by (simp add: getPageContent_def)

lemma rethrow_Inl [simp]: "rethrow engine context (Inl e) = Inl (Error (context @ message engine e))"
  by (simp add: rethrow_def)

lemma rethrow_Inr [simp]: "rethrow engine context (Inr v) = Inr v"
  by (simp add: rethrow_def)

lemma message_Error [simp]: "message engine (Error m) = m"
  by (simp add: message_def)

text \<open>
  C9. When the retrieval of the page is rejected with message \<open>m\<close>, or a block
  listing is (after any number of listings that went well and asked for more),
  getPageContent ends with an error whose message is \<open>Failed to get page content: \<close>
  followed by \<open>m\<close>; the result is the error alone, and no call follows the rejected one.
\<close>

theorem getPageContent_rethrows:
  "(notion hist (PagesRetrieve pid) = Inl m \<longrightarrow>
      getPageContent engine notion hist pid =
        Some (Inl (Error (''Failed to get page content: '' @ m)), hist @ [PagesRetrieve pid]))
   \<and> (notion hist (PagesRetrieve pid) = Inr page
       \<and> list_all2 (\<lambda>r (bs, c). and_then (js_get r ''results'') js_spread = Inr bs
              \<and> js_get r ''next_cursor'' = Inr c) rs pages
       \<and> list_all truthy (map snd pages)
       \<and> (\<forall>i<length rs.
             notion ((hist @ [PagesRetrieve pid])
                       @ map (BlocksChildrenList pid) (take i (JUndefined # map snd pages)))
               (BlocksChildrenList pid ((JUndefined # map snd pages) ! i)) = Inr (rs ! i))
       \<and> notion ((hist @ [PagesRetrieve pid])
                    @ map (BlocksChildrenList pid) (butlast (JUndefined # map snd pages)))
             (BlocksChildrenList pid (last (JUndefined # map snd pages))) = Inl m \<longrightarrow>
      getPageContent engine notion hist pid =
        Some (Inl (Error (''Failed to get page content: '' @ m)),
              (hist @ [PagesRetrieve pid])
                @ map (BlocksChildrenList pid) (JUndefined # map snd pages)))"
proof (intro conjI impI)
  assume "notion hist (PagesRetrieve pid) = Inl m"
  then have "getPageContent_try notion hist pid = Some (Inl (Error m), hist @ [PagesRetrieve pid])"
    by (rule getPageContent_try_rejected)
  then show "getPageContent engine notion hist pid =
        Some (Inl (Error (''Failed to get page content: '' @ m)), hist @ [PagesRetrieve pid])"
    by (simp add: getPageContent_of_try)
next
  assume a: "notion hist (PagesRetrieve pid) = Inr page
       \<and> list_all2 (\<lambda>r (bs, c). and_then (js_get r ''results'') js_spread = Inr bs
              \<and> js_get r ''next_cursor'' = Inr c) rs pages
       \<and> list_all truthy (map snd pages)
       \<and> (\<forall>i<length rs.
             notion ((hist @ [PagesRetrieve pid])
                       @ map (BlocksChildrenList pid) (take i (JUndefined # map snd pages)))
               (BlocksChildrenList pid ((JUndefined # map snd pages) ! i)) = Inr (rs ! i))
       \<and> notion ((hist @ [PagesRetrieve pid])
                    @ map (BlocksChildrenList pid) (butlast (JUndefined # map snd pages)))
             (BlocksChildrenList pid (last (JUndefined # map snd pages))) = Inl m"
  then have "fetch_blocks notion pid (hist @ [PagesRetrieve pid]) JUndefined [] =
     Some (Inl (Error m),
           (hist @ [PagesRetrieve pid]) @ map (BlocksChildrenList pid) (JUndefined # map snd pages))"
    by (intro fetch_blocks_fails [where rs = rs]) simp_all
  with a have "getPageContent_try notion hist pid =
     Some (Inl (Error m),
           (hist @ [PagesRetrieve pid]) @ map (BlocksChildrenList pid) (JUndefined # map snd pages))"
    by (simp add: getPageContent_try_listing)
  then show "getPageContent engine notion hist pid =
        Some (Inl (Error (''Failed to get page content: '' @ m)),
              (hist @ [PagesRetrieve pid])
                @ map (BlocksChildrenList pid) (JUndefined # map snd pages))"
    by (simp add: getPageContent_of_try)
qed

theorem getPageContent_rethrows_witness:
  "getPageContent (\<lambda>t. ''TypeError'') (scripted [Inl ''Could not find page'']) [] ''page''
     = Some (Inl (Error ''Failed to get page content: Could not find page''),
             [PagesRetrieve ''page''])
   \<and> getPageContent (\<lambda>t. ''TypeError'')
       (scripted
          [Inr (JObj [(''id'', JStr ''page'')]),
           Inr (JObj [(''results'', JArr [JObj [(''id'', JStr ''b1'')]]), (''next_cursor'', JStr ''abc'')]),
           Inl ''Rate limited'']) [] ''page''
     = Some (Inl (Error ''Failed to get page content: Rate limited''),
             [PagesRetrieve ''page'', BlocksChildrenList ''page'' JUndefined,
              BlocksChildrenList ''page'' (JStr ''abc'')])"
proof -
  have a: "getPageContent (\<lambda>t. ''TypeError'') (scripted [Inl ''Could not find page'']) [] ''page''
     = Some (Inl (Error ''Failed to get page content: Could not find page''),
             [PagesRetrieve ''page''])"
    using getPageContent_rethrows
      [where notion = "scripted [Inl ''Could not find page'']" and hist = "[]" and pid = "''page''"
         and m = "''Could not find page''" and engine = "\<lambda>t. ''TypeError''"]
    by (simp add: scripted_def)
  have b: "getPageContent (\<lambda>t. ''TypeError'')
       (scripted
          [Inr (JObj [(''id'', JStr ''page'')]),
           Inr (JObj [(''results'', JArr [JObj [(''id'', JStr ''b1'')]]), (''next_cursor'', JStr ''abc'')]),
           Inl ''Rate limited'']) [] ''page''
     = Some (Inl (Error ''Failed to get page content: Rate limited''),
             [PagesRetrieve ''page'', BlocksChildrenList ''page'' JUndefined,
              BlocksChildrenList ''page'' (JStr ''abc'')])"
    using getPageContent_rethrows
      [where notion = "scripted
          [Inr (JObj [(''id'', JStr ''page'')]),
           Inr (JObj [(''results'', JArr [JObj [(''id'', JStr ''b1'')]]), (''next_cursor'', JStr ''abc'')]),
           Inl ''Rate limited'']" and hist = "[]" and pid = "''page''" and m = "''Rate limited''"
          and page = "JObj [(''id'', JStr ''page'')]"
          and rs = "[JObj [(''results'', JArr [JObj [(''id'', JStr ''b1'')]]), (''next_cursor'', JStr ''abc'')]]"
          and pages = "[([JObj [(''id'', JStr ''b1'')]], JStr ''abc'')]" and engine = "\<lambda>t. ''TypeError''"]
    by (simp add: scripted_def js_spread_def)
  from a b show ?thesis by simp
qed

text \<open>
  C10. When the body of getPageContent throws \<open>e\<close>, the error that leaves the
  get_notion_page tool has the message
  \<open>Failed to get page: Failed to get page content: \<close> followed by the message of \<open>e\<close>:
  the catch of getPageContent adds the inner prefix, the catch of the handler the outer.
\<close>

theorem get_notion_page_wraps_twice:
  assumes "getPageContent_try notion hist pid = Some (Inl e, hist')"
  shows "get_notion_page engine notion hist pid =
     Some (Inl (Error (''Failed to get page: Failed to get page content: '' @ message engine e)),
           hist')"
  using assms by (simp add: get_notion_page_def getPageContent_of_try)

theorem get_notion_page_wraps_twice_witness:
  "get_notion_page (\<lambda>t. ''TypeError'') (scripted [Inl ''Could not find page'']) [] ''page''
     = Some (Inl (Error ''Failed to get page: Failed to get page content: Could not find page''),
             [PagesRetrieve ''page''])"
  using get_notion_page_wraps_twice
    [where notion = "scripted [Inl ''Could not find page'']" and hist = "[]" and pid = "''page''"
       and e = "Error ''Could not find page''" and hist' = "[PagesRetrieve ''page'']"
       and engine = "\<lambda>t. ''TypeError''"]
  by (simp add: getPageContent_try_rejected scripted_def)

section \<open>The payloads of the two tools\<close>

lemma getPageContent_try_returned:
  assumes "getPageContent_try notion hist pid = Some (Inr pd, hist')"
  shows "\<exists>page bs. notion hist (PagesRetrieve pid) = Inr page
      \<and> fetch_blocks notion pid (hist @ [PagesRetrieve pid]) JUndefined [] = Some (Inr bs, hist')
      \<and> data_page pd = page \<and> data_blocks pd = bs"
proof (cases "notion hist (PagesRetrieve pid)")
  case (Inl m)
  with assms show ?thesis by (simp add: getPageContent_try_rejected)
next
  case (Inr page)
  show ?thesis
  proof (cases "fetch_blocks notion pid (hist @ [PagesRetrieve pid]) JUndefined []")
    case None
    with Inr assms show ?thesis by (simp add: getPageContent_try_def call_def)
  next
    case (Some res)
    obtain r h2 where res: "res = (r, h2)" by (cases res)
    from assms getPageContent_try_listing [OF Inr Some [unfolded res]]
    have h: "h2 = hist'" and ok: "and_then r (\<lambda>bs.
           and_then (content_lines bs) (\<lambda>content.
           and_then (extractAllProperties page) (\<lambda>properties.
             Inr \<lparr>data_page = page, data_properties = properties,
                  data_content = join_strs MARKDOWN_SYMBOLS_DOUBLE_NEWLINE content,
                  data_blocks = bs\<rparr>))) = Inr pd"
      by simp_all
    from ok obtain bs where r: "r = Inr bs" by (cases r) simp_all
    from ok r have "data_page pd = page \<and> data_blocks pd = bs"
      by (auto simp: and_then_def split: sum.splits)
    with Inr Some res r h show ?thesis by simp
  qed
qed

lemma rethrow_returned: "rethrow engine context r = Inr v \<Longrightarrow> r = Inr v"
  by (cases r) simp_all

text \<open>
  C7. Whenever get_notion_page returns a payload, its field \<open>total_blocks\<close> is the
  number of blocks that the listing loop gathered: all of them, whatever they render
  to, not the number of lines left after the empty ones are dropped.
\<close>

theorem total_blocks_counts_raw_blocks:
  assumes "get_notion_page engine notion hist pid = Some (Inr payload, hist')"
  shows "\<exists>page bs. notion hist (PagesRetrieve pid) = Inr page
      \<and> fetch_blocks notion pid (hist @ [PagesRetrieve pid]) JUndefined [] = Some (Inr bs, hist')
      \<and> js_get payload ''total_blocks'' = Inr (JNum (decimal (length bs)))"
proof -
  from assms obtain r where g: "getPageContent engine notion hist pid = Some (r, hist')"
    and p: "rethrow engine ''Failed to get page: ''
            (and_then r (\<lambda>pageData.
             and_then (js_get (data_page pageData) ''url'') (\<lambda>url.
               Inr (json_value
                 (JObj [(''page_id'', JStr pid),
                        (''url'', url),
                        (''properties'', JObj (data_properties pageData)),
                        (''content'', JStr (data_content pageData)),
                        (''total_blocks'', JNum (decimal (length (data_blocks pageData))))])))))
          = Inr payload"
    by (auto simp: get_notion_page_def)
  from p obtain pd where r: "r = Inr pd"
    by (cases r) simp_all
  from p r obtain url where payload: "json_value
                 (JObj [(''page_id'', JStr pid),
                        (''url'', url),
                        (''properties'', JObj (data_properties pd)),
                        (''content'', JStr (data_content pd)),
                        (''total_blocks'', JNum (decimal (length (data_blocks pd))))]) = payload"
    by (cases "js_get (data_page pd) ''url''") (simp_all del: json_value.simps)
  from g r obtain r0 where t: "getPageContent_try notion hist pid = Some (r0, hist')"
    and "rethrow engine ''Failed to get page content: '' r0 = Inr pd"
    by (auto simp: getPageContent_def)
  then have "getPageContent_try notion hist pid = Some (Inr pd, hist')"
    by (simp add: rethrow_returned)
  then obtain page bs where "notion hist (PagesRetrieve pid) = Inr page"
      "fetch_blocks notion pid (hist @ [PagesRetrieve pid]) JUndefined [] = Some (Inr bs, hist')"
      "data_blocks pd = bs"
    using getPageContent_try_returned by blast
  moreover have "js_get payload ''total_blocks'' = Inr (JNum (decimal (length (data_blocks pd))))"
    unfolding payload [symmetric] by simp
  ultimately show ?thesis by auto
qed


theorem total_blocks_counts_raw_blocks_witness:
  "get_notion_page (\<lambda>t. ''TypeError'')
     (scripted
        [Inr (JObj [(''id'', JStr ''page''), (''url'', JStr ''https://www.notion.so/page'')]),
         Inr (JObj [(''results'',
                JArr [JObj [(''type'', JStr ''divider''), (''divider'', JObj [])],
                      JObj [(''type'', JStr ''paragraph''),
                            (''paragraph'', JObj [(''rich_text'', JArr [])])],
                      JObj [(''type'', JStr ''heading_1''),
                            (''heading_1'',
                             JObj [(''rich_text'', JArr [JObj [(''plain_text'', JStr ''Title'')]])])]]),
               (''next_cursor'', JNull)])])
     [] ''page''
   = Some (Inr (JObj [(''page_id'', JStr ''page''),
                      (''url'', JStr ''https://www.notion.so/page''),
                      (''properties'', JObj []),
                      (''content'', JStr (''---'' @ [CHR 0x0A, CHR 0x0A] @ ''# Title'')),
                      (''total_blocks'', JNum ''3'')]),
           [PagesRetrieve ''page'', BlocksChildrenList ''page'' JUndefined])
   \<and> js_get (JObj [(''page_id'', JStr ''page''),
                      (''url'', JStr ''https://www.notion.so/page''),
                      (''properties'', JObj []),
                      (''content'', JStr (''---'' @ [CHR 0x0A, CHR 0x0A] @ ''# Title'')),
                      (''total_blocks'', JNum ''3'')]) ''total_blocks''
      = Inr (JNum ''3'')"
proof -
  let ?page = "JObj [(''id'', JStr ''page''), (''url'', JStr ''https://www.notion.so/page'')]"
  let ?bs = "[JObj [(''type'', JStr ''divider''), (''divider'', JObj [])],
              JObj [(''type'', JStr ''paragraph''), (''paragraph'', JObj [(''rich_text'', JArr [])])],
              JObj [(''type'', JStr ''heading_1''),
                    (''heading_1'',
                     JObj [(''rich_text'', JArr [JObj [(''plain_text'', JStr ''Title'')]])])]]"
  let ?listing = "JObj [(''results'', JArr ?bs), (''next_cursor'', JNull)]"
  let ?notion = "scripted [Inr ?page, Inr ?listing]"
  let ?hist = "[PagesRetrieve ''page'', BlocksChildrenList ''page'' JUndefined]"
  have page: "?notion [] (PagesRetrieve ''page'') = Inr ?page"
    by (simp add: scripted_def)
  have "fetch_blocks ?notion ''page'' [PagesRetrieve ''page''] JUndefined [] =
      Some (Inr ([] @ concat (map fst [(?bs, JNull)])),
            [PagesRetrieve ''page'']
              @ map (BlocksChildrenList ''page'') (JUndefined # butlast (map snd [(?bs, JNull)])))"
    by (rule fetch_blocks_pages [where rs = "[?listing]"])
       (simp_all add: scripted_def js_spread_def)
  then have listed: "fetch_blocks ?notion ''page'' ([] @ [PagesRetrieve ''page'']) JUndefined [] =
      Some (Inr ?bs, ?hist)"
    by simp
  have lines: "content_lines ?bs = Inr [''---'', ''# Title'']"
    by (simp add: content_lines_def render_all_def render_def block_text_def prefixed_def
          plain_texts_def js_map_def js_join_def nullish_def symbols)
  have props: "extractAllProperties ?page = Inr []"
    by (simp add: extractAllProperties_def object_entries_def js_or_def)
  have "getPageContent_try ?notion [] ''page'' =
      Some (Inr \<lparr>data_page = ?page, data_properties = [],
                 data_content = ''---'' @ [CHR 0x0A, CHR 0x0A] @ ''# Title'',
                 data_blocks = ?bs\<rparr>, ?hist)"
    unfolding getPageContent_try_listing [OF page listed]
    by (simp add: lines props symbols)
  then have run: "get_notion_page (\<lambda>t. ''TypeError'') ?notion [] ''page'' =
      Some (Inr (JObj [(''page_id'', JStr ''page''),
                      (''url'', JStr ''https://www.notion.so/page''),
                      (''properties'', JObj []),
                      (''content'', JStr (''---'' @ [CHR 0x0A, CHR 0x0A] @ ''# Title'')),
                      (''total_blocks'', JNum (decimal 3))]), ?hist)"
    by (simp add: get_notion_page_def getPageContent_of_try eval_nat_numeral)
  have three: "decimal 3 = ''3''"
    by (simp add: decimal.simps digit_def)
  from total_blocks_counts_raw_blocks [OF run] listed
  have "js_get (JObj [(''page_id'', JStr ''page''),
                      (''url'', JStr ''https://www.notion.so/page''),
                      (''properties'', JObj []),
                      (''content'', JStr (''---'' @ [CHR 0x0A, CHR 0x0A] @ ''# Title'')),
                      (''total_blocks'', JNum (decimal 3))]) ''total_blocks''
        = Inr (JNum (decimal (length ?bs)))"
    by auto
  with run three show ?thesis by simp
qed


lemma search_result_fields:
  assumes "js_get p ''id'' = Inr i" and "js_get p ''url'' = Inr u"
    and "js_get p ''created_time'' = Inr c" and "js_get p ''last_edited_time'' = Inr e"
    and "extractAllProperties p = Inr props"
  shows "search_result p =
     Inr (JObj [(''id'', i), (''url'', u), (''created_time'', c), (''last_edited_time'', e),
                (''properties'', JObj props)])"
  using assms by (simp add: search_result_def)

lemma json_value_fields:
  assumes "i \<noteq> JUndefined" and "u \<noteq> JUndefined" and "c \<noteq> JUndefined" and "e \<noteq> JUndefined"
  shows "json_value (JObj [(''id'', i), (''url'', u), (''created_time'', c),
                           (''last_edited_time'', e), (''properties'', JObj props)]) =
     JObj [(''id'', json_value i), (''url'', json_value u), (''created_time'', json_value c),
           (''last_edited_time'', json_value e), (''properties'', json_value (JObj props))]"
  using assms by (simp del: json_value.simps add: json_value.simps(3))

lemma json_value_payload:
  "json_value (JObj [(''query'', JStr q), (''total_results'', JNum (decimal n)),
                     (''results'', JArr xs)]) =
     JObj [(''query'', JStr q), (''total_results'', JNum (decimal n)),
           (''results'', JArr (map (\<lambda>x. if x = JUndefined then JNull else json_value x) xs))]"
  by simp

text \<open>
  C8. search_notion makes one call on the client, a search for the query with the
  filter \<open>property: object, value: page\<close>, and nothing beyond it. When the response
  holds pages that each carry \<open>id\<close>, \<open>url\<close>, \<open>created_time\<close> and
  \<open>last_edited_time\<close> and whose properties normalize, the payload is the query, the
  number of results and, for each page in order, an object of exactly the five fields
  \<open>id\<close>, \<open>url\<close>, \<open>created_time\<close>, \<open>last_edited_time\<close> and \<open>properties\<close>, the last
  being the output of extractAllProperties.
\<close>

theorem search_notion_payload:
  assumes "notion hist (Search query ''object'' ''page'') = Inr response"
    and "js_get response ''results'' = Inr (JArr pages)"
    and "list_all2 (\<lambda>p (i, u, c, e, props).
            js_get p ''id'' = Inr i \<and> i \<noteq> JUndefined
          \<and> js_get p ''url'' = Inr u \<and> u \<noteq> JUndefined
          \<and> js_get p ''created_time'' = Inr c \<and> c \<noteq> JUndefined
          \<and> js_get p ''last_edited_time'' = Inr e \<and> e \<noteq> JUndefined
          \<and> extractAllProperties p = Inr props) pages found"
  shows "search_notion engine notion hist query =
     (Inr (JObj [(''query'', JStr query),
                 (''total_results'', JNum (decimal (length pages))),
                 (''results'', JArr (map (\<lambda>(i, u, c, e, props).
                     JObj [(''id'', json_value i), (''url'', json_value u),
                           (''created_time'', json_value c),
                           (''last_edited_time'', json_value e),
                           (''properties'', json_value (JObj props))]) found))]),
      hist @ [Search query ''object'' ''page''])
     \<and> length found = length pages"
proof -
  let ?result = "\<lambda>(i, u, c, e, props).
      JObj [(''id'', i), (''url'', u), (''created_time'', c), (''last_edited_time'', e),
            (''properties'', JObj props)]"
  from assms(3) have "list_all2 (\<lambda>p r. search_result p = Inr r) pages (map ?result found)"
    unfolding list_all2_map2
    by (rule list_all2_mono) (auto simp: search_result_fields)
  then have results: "js_map (JArr pages) search_result = Inr (map ?result found)"
    by (rule js_map_array)
  from assms(3) have len: "length found = length pages"
    by (simp add: list_all2_lengthD)
  from assms(3) have defined: "list_all (\<lambda>(i, u, c, e, props).
      i \<noteq> JUndefined \<and> u \<noteq> JUndefined \<and> c \<noteq> JUndefined \<and> e \<noteq> JUndefined) found"
    by (induction pages found rule: list_all2_induct) auto
  then have json: "map (\<lambda>x. if x = JUndefined then JNull else json_value x) (map ?result found) =
      map (\<lambda>(i, u, c, e, props).
                     JObj [(''id'', json_value i), (''url'', json_value u),
                           (''created_time'', json_value c),
                           (''last_edited_time'', json_value e),
                           (''properties'', json_value (JObj props))]) found"
    by (induction found) (auto simp del: json_value.simps simp add: json_value_fields)
  from assms(1,2) results have run: "search_notion engine notion hist query =
     (Inr (json_value
        (JObj [(''query'', JStr query),
               (''total_results'', JNum (decimal (length found))),
               (''results'', JArr (map ?result found))])),
      hist @ [Search query ''object'' ''page''])"
    by (simp del: json_value.simps add: search_notion_def call_def)
  from run [unfolded json_value_payload json len] len show ?thesis
    by (rule conjI)
qed

theorem search_notion_payload_witness:
  "search_notion (\<lambda>t. ''TypeError'')
     (scripted
        [Inr (JObj [(''results'',
           JArr [JObj [(''object'', JStr ''page''), (''id'', JStr ''p1''),
                       (''url'', JStr ''https://www.notion.so/p1''),
                       (''created_time'', JStr ''2024-01-01T00:00:00.000Z''),
                       (''last_edited_time'', JStr ''2024-01-02T00:00:00.000Z''),
                       (''properties'',
                        JObj [(''Done'', JObj [(''type'', JStr ''checkbox''),
                                               (''checkbox'', JBool True)])])]])])])
     [] ''plan''
   = (Inr (JObj [(''query'', JStr ''plan''),
                 (''total_results'', JNum ''1''),
                 (''results'',
                  JArr [JObj [(''id'', JStr ''p1''),
                              (''url'', JStr ''https://www.notion.so/p1''),
                              (''created_time'', JStr ''2024-01-01T00:00:00.000Z''),
                              (''last_edited_time'', JStr ''2024-01-02T00:00:00.000Z''),
                              (''properties'', JObj [(''Done'', JBool True)])]])]),
      [Search ''plan'' ''object'' ''page''])"
  using search_notion_payload
    [where notion = "scripted
        [Inr (JObj [(''results'',
           JArr [JObj [(''object'', JStr ''page''), (''id'', JStr ''p1''),
                       (''url'', JStr ''https://www.notion.so/p1''),
                       (''created_time'', JStr ''2024-01-01T00:00:00.000Z''),
                       (''last_edited_time'', JStr ''2024-01-02T00:00:00.000Z''),
                       (''properties'',
                        JObj [(''Done'', JObj [(''type'', JStr ''checkbox''),
                                               (''checkbox'', JBool True)])])]])])]"
       and hist = "[]" and query = "''plan''" and engine = "\<lambda>t. ''TypeError''"
       and response = "JObj [(''results'',
           JArr [JObj [(''object'', JStr ''page''), (''id'', JStr ''p1''),
                       (''url'', JStr ''https://www.notion.so/p1''),
                       (''created_time'', JStr ''2024-01-01T00:00:00.000Z''),
                       (''last_edited_time'', JStr ''2024-01-02T00:00:00.000Z''),
                       (''properties'',
                        JObj [(''Done'', JObj [(''type'', JStr ''checkbox''),
                                               (''checkbox'', JBool True)])])]])]"
       and pages = "[JObj [(''object'', JStr ''page''), (''id'', JStr ''p1''),
                       (''url'', JStr ''https://www.notion.so/p1''),
                       (''created_time'', JStr ''2024-01-01T00:00:00.000Z''),
                       (''last_edited_time'', JStr ''2024-01-02T00:00:00.000Z''),
                       (''properties'',
                        JObj [(''Done'', JObj [(''type'', JStr ''checkbox''),
                                               (''checkbox'', JBool True)])])]]"
       and found = "[(JStr ''p1'', JStr ''https://www.notion.so/p1'',
                      JStr ''2024-01-01T00:00:00.000Z'', JStr ''2024-01-02T00:00:00.000Z'',
                      [(''Done'', JBool True)])]"]
  by (simp add: scripted_def extractAllProperties_def object_entries_def js_or_def
        normalize_property_def set_property_def decimal.simps digit_def)

section \<open>The content of a page\<close>

lemma collect_map_returned:
  "collect (map f xs) = Inr ys \<Longrightarrow> list_all2 (\<lambda>x y. f x = Inr y) xs ys"
proof (induction xs arbitrary: ys)
  case Nil
  then show ?case by simp
next
  case (Cons x xs)
  then show ?case
    by (cases "f x"; cases "collect (map f xs)") auto
qed

lemma collect_map_throws:
  "x \<in> set xs \<Longrightarrow> f x = Inl err \<Longrightarrow> \<exists>e. collect (map f xs) = Inl e"
proof (induction xs)
  case Nil
  then show ?case by simp
next
  case (Cons y ys)
  then show ?case
    by (cases "f y"; cases "collect (map f ys)") auto
qed

lemma content_lines_rendered:
  "list_all2 (\<lambda>b l. render b = Inr l) bs lines \<Longrightarrow>
   content_lines bs = Inr (filter (\<lambda>l. l \<noteq> []) lines)"
  by (simp add: content_lines_def render_all_lines)

lemma getPageContent_try_content:
  assumes "getPageContent_try notion hist pid = Some (Inr pd, hist')"
  shows "\<exists>lines. fetch_blocks notion pid (hist @ [PagesRetrieve pid]) JUndefined []
                    = Some (Inr (data_blocks pd), hist')
      \<and> render_all (data_blocks pd) = Inr lines
      \<and> data_content pd = join_strs [CHR 0x0A, CHR 0x0A] (filter (\<lambda>l. l \<noteq> []) lines)"
proof -
  from getPageContent_try_returned [OF assms] obtain page
    where page: "notion hist (PagesRetrieve pid) = Inr page"
      and listed: "fetch_blocks notion pid (hist @ [PagesRetrieve pid]) JUndefined []
                    = Some (Inr (data_blocks pd), hist')"
    by auto
  from assms getPageContent_try_listing [OF page listed]
  have ok: "and_then (content_lines (data_blocks pd)) (\<lambda>content.
           and_then (extractAllProperties page) (\<lambda>properties.
             Inr \<lparr>data_page = page, data_properties = properties,
                  data_content = join_strs MARKDOWN_SYMBOLS_DOUBLE_NEWLINE content,
                  data_blocks = data_blocks pd\<rparr>)) = Inr pd"
    by simp
  then obtain content where content: "content_lines (data_blocks pd) = Inr content"
    by (cases "content_lines (data_blocks pd)") simp_all
  with ok obtain props where "extractAllProperties page = Inr props"
    by (cases "extractAllProperties page") simp_all
  with ok content have built: "\<lparr>data_page = page, data_properties = props,
                  data_content = join_strs MARKDOWN_SYMBOLS_DOUBLE_NEWLINE content,
                  data_blocks = data_blocks pd\<rparr> = pd"
    by simp
  from arg_cong [OF built, of data_content]
  have joined: "data_content pd = join_strs MARKDOWN_SYMBOLS_DOUBLE_NEWLINE content"
    by simp
  from content obtain lines where lines: "render_all (data_blocks pd) = Inr lines"
    and "content = filter (\<lambda>text. length text > 0) lines"
    by (cases "render_all (data_blocks pd)") (auto simp: content_lines_def)
  with joined have "data_content pd = join_strs [CHR 0x0A, CHR 0x0A] (filter (\<lambda>l. l \<noteq> []) lines)"
    by (simp add: MARKDOWN_SYMBOLS_DOUBLE_NEWLINE_def)
  with listed lines show ?thesis by blast
qed

text \<open>
  C5, as the code has it. Not every raw block sequence is mapped to a sequence of lines:
  for a listing of a divider and a heading without its payload object, the map throws
  at the heading, and the body of getPageContent ends with that \<open>TypeError\<close> and no
  content.
\<close>

theorem getPageContent_throws_on_block_without_payload:
  "render_all [JObj [(''type'', JStr ''divider'')], JObj [(''type'', JStr ''heading_1'')]]
     = Inl (TypeError (NullishRead JUndefined ''rich_text''))
   \<and> getPageContent_try
       (scripted
          [Inr (JObj [(''id'', JStr ''page'')]),
           Inr (JObj [(''results'',
                       JArr [JObj [(''type'', JStr ''divider'')], JObj [(''type'', JStr ''heading_1'')]]),
                      (''next_cursor'', JNull)])])
       [] ''page''
     = Some (Inl (TypeError (NullishRead JUndefined ''rich_text'')),
             [PagesRetrieve ''page'', BlocksChildrenList ''page'' JUndefined])"
proof -
  let ?bs = "[JObj [(''type'', JStr ''divider'')], JObj [(''type'', JStr ''heading_1'')]]"
  let ?page = "JObj [(''id'', JStr ''page'')]"
  let ?listing = "JObj [(''results'', JArr ?bs), (''next_cursor'', JNull)]"
  let ?notion = "scripted [Inr ?page, Inr ?listing]"
  have thrown: "render_all ?bs = Inl (TypeError (NullishRead JUndefined ''rich_text''))"
    by (simp add: render_all_def render_def block_text_def prefixed_def symbols)
  have page: "?notion [] (PagesRetrieve ''page'') = Inr ?page"
    by (simp add: scripted_def)
  have "fetch_blocks ?notion ''page'' [PagesRetrieve ''page''] JUndefined [] =
      Some (Inr ([] @ concat (map fst [(?bs, JNull)])),
            [PagesRetrieve ''page'']
              @ map (BlocksChildrenList ''page'') (JUndefined # butlast (map snd [(?bs, JNull)])))"
    by (rule fetch_blocks_pages [where rs = "[?listing]"])
       (simp_all add: scripted_def js_spread_def)
  then have listed: "fetch_blocks ?notion ''page'' ([] @ [PagesRetrieve ''page'']) JUndefined [] =
      Some (Inr ?bs, [PagesRetrieve ''page'', BlocksChildrenList ''page'' JUndefined])"
    by simp
  have "getPageContent_try ?notion [] ''page''
     = Some (Inl (TypeError (NullishRead JUndefined ''rich_text'')),
             [PagesRetrieve ''page'', BlocksChildrenList ''page'' JUndefined])"
    unfolding getPageContent_try_listing [OF page listed]
    by (simp add: content_lines_def thrown)
  with thrown show ?thesis by simp
qed

text \<open>
  C5, amended. Whenever getPageContent returns, the blocks it returns are the blocks
  the listing loop gathered, each of them rendered to a line (so the lines are as many
  as the blocks, in their order), and the content it returns is the join, with a blank
  line, of exactly the lines that are not empty. It does return, with that content,
  whenever the page is retrieved, the listing ends, every gathered block renders and
  the properties normalize. When a gathered block makes \<open>render\<close> throw, the map gives
  no lines and getPageContent fails with \<open>Failed to get page content: \<close> and the
  message of the error. In particular, for a divider, a paragraph whose runs hold no
  text and a heading the content is two lines, the divider's and the heading's, with
  a blank line between them.
\<close>

theorem getPageContent_content:
  "(getPageContent engine notion hist pid = Some (Inr pd, hist') \<longrightarrow>
      (\<exists>lines. fetch_blocks notion pid (hist @ [PagesRetrieve pid]) JUndefined []
                   = Some (Inr (data_blocks pd), hist')
         \<and> list_all2 (\<lambda>b l. render b = Inr l) (data_blocks pd) lines
         \<and> length lines = length (data_blocks pd)
         \<and> data_content pd = join_strs [CHR 0x0A, CHR 0x0A] (filter (\<lambda>l. l \<noteq> []) lines)))
   \<and> (notion hist (PagesRetrieve pid) = Inr page
       \<and> fetch_blocks notion pid (hist @ [PagesRetrieve pid]) JUndefined [] = Some (Inr bs, hist_after)
       \<and> list_all2 (\<lambda>b l. render b = Inr l) bs lines
       \<and> extractAllProperties page = Inr props \<longrightarrow>
      getPageContent engine notion hist pid =
        Some (Inr \<lparr>data_page = page, data_properties = props,
                   data_content = join_strs [CHR 0x0A, CHR 0x0A] (filter (\<lambda>l. l \<noteq> []) lines),
                   data_blocks = bs\<rparr>, hist_after))
   \<and> (notion hist (PagesRetrieve pid) = Inr page
       \<and> fetch_blocks notion pid (hist @ [PagesRetrieve pid]) JUndefined [] = Some (Inr bs, hist_after)
       \<and> b \<in> set bs \<and> render b = Inl err \<longrightarrow>
      (\<exists>e. render_all bs = Inl e
         \<and> getPageContent engine notion hist pid =
             Some (Inl (Error (''Failed to get page content: '' @ message engine e)), hist_after)))
   \<and> (notion hist (PagesRetrieve pid) = Inr page
       \<and> fetch_blocks notion pid (hist @ [PagesRetrieve pid]) JUndefined []
           = Some (Inr [d, p, h], hist_after)
       \<and> extractAllProperties page = Inr props
       \<and> js_get d ''type'' = Inr (JStr ''divider'')
       \<and> js_get p ''type'' = Inr (JStr ''paragraph'') \<and> js_get p ''paragraph'' = Inr pp
       \<and> js_get pp ''rich_text'' = Inr (JArr pruns)
       \<and> list_all2 (\<lambda>r t. js_get r ''plain_text'' = Inr (JStr t)) pruns ptexts
       \<and> concat ptexts = []
       \<and> js_get h ''type'' = Inr (JStr hk) \<and> hk \<in> {''heading_1'', ''heading_2'', ''heading_3''}
       \<and> js_get h hk = Inr hp \<and> js_get hp ''rich_text'' = Inr (JArr runs)
       \<and> list_all2 (\<lambda>r t. js_get r ''plain_text'' = Inr (JStr t)) runs texts \<longrightarrow>
      render_all [d, p, h] = Inr [''---'', [], table_4_2 hk False [] (concat texts)]
      \<and> table_4_2 hk False [] (concat texts) \<noteq> []
      \<and> getPageContent engine notion hist pid =
          Some (Inr \<lparr>data_page = page, data_properties = props,
                     data_content = ''---'' @ [CHR 0x0A, CHR 0x0A]
                                    @ table_4_2 hk False [] (concat texts),
                     data_blocks = [d, p, h]\<rparr>, hist_after))"
proof (intro conjI impI)
  assume "getPageContent engine notion hist pid = Some (Inr pd, hist')"
  then obtain r0 where "getPageContent_try notion hist pid = Some (r0, hist')"
    and "rethrow engine ''Failed to get page content: '' r0 = Inr pd"
    by (auto simp: getPageContent_def)
  then have "getPageContent_try notion hist pid = Some (Inr pd, hist')"
    by (simp add: rethrow_returned)
  from getPageContent_try_content [OF this] obtain lines
    where listed: "fetch_blocks notion pid (hist @ [PagesRetrieve pid]) JUndefined []
                    = Some (Inr (data_blocks pd), hist')"
      and lines: "render_all (data_blocks pd) = Inr lines"
      and joined: "data_content pd = join_strs [CHR 0x0A, CHR 0x0A] (filter (\<lambda>l. l \<noteq> []) lines)"
    by blast
  from lines have each: "list_all2 (\<lambda>b l. render b = Inr l) (data_blocks pd) lines"
    unfolding render_all_def by (rule collect_map_returned)
  then have "length lines = length (data_blocks pd)"
    by (simp add: list_all2_lengthD)
  with listed each joined
  show "\<exists>lines. fetch_blocks notion pid (hist @ [PagesRetrieve pid]) JUndefined []
                   = Some (Inr (data_blocks pd), hist')
         \<and> list_all2 (\<lambda>b l. render b = Inr l) (data_blocks pd) lines
         \<and> length lines = length (data_blocks pd)
         \<and> data_content pd = join_strs [CHR 0x0A, CHR 0x0A] (filter (\<lambda>l. l \<noteq> []) lines)"
    by blast
next
  assume a: "notion hist (PagesRetrieve pid) = Inr page
       \<and> fetch_blocks notion pid (hist @ [PagesRetrieve pid]) JUndefined [] = Some (Inr bs, hist_after)
       \<and> list_all2 (\<lambda>b l. render b = Inr l) bs lines
       \<and> extractAllProperties page = Inr props"
  then have page: "notion hist (PagesRetrieve pid) = Inr page"
    and listed: "fetch_blocks notion pid (hist @ [PagesRetrieve pid]) JUndefined [] = Some (Inr bs, hist_after)"
    by simp_all
  from a have "content_lines bs = Inr (filter (\<lambda>l. l \<noteq> []) lines)"
    by (simp add: content_lines_rendered)
  with a show "getPageContent engine notion hist pid =
        Some (Inr \<lparr>data_page = page, data_properties = props,
                   data_content = join_strs [CHR 0x0A, CHR 0x0A] (filter (\<lambda>l. l \<noteq> []) lines),
                   data_blocks = bs\<rparr>, hist_after)"
    by (simp add: getPageContent_def getPageContent_try_listing [OF page listed]
          MARKDOWN_SYMBOLS_DOUBLE_NEWLINE_def)
next
  assume a: "notion hist (PagesRetrieve pid) = Inr page
       \<and> fetch_blocks notion pid (hist @ [PagesRetrieve pid]) JUndefined [] = Some (Inr bs, hist_after)
       \<and> b \<in> set bs \<and> render b = Inl err"
  then have page: "notion hist (PagesRetrieve pid) = Inr page"
    and listed: "fetch_blocks notion pid (hist @ [PagesRetrieve pid]) JUndefined [] = Some (Inr bs, hist_after)"
    by simp_all
  from a obtain e where e: "render_all bs = Inl e"
    unfolding render_all_def using collect_map_throws [of b bs render err] by blast
  then have "getPageContent engine notion hist pid =
             Some (Inl (Error (''Failed to get page content: '' @ message engine e)), hist_after)"
    by (simp add: getPageContent_def getPageContent_try_listing [OF page listed] content_lines_def)
  with e show "\<exists>e. render_all bs = Inl e
         \<and> getPageContent engine notion hist pid =
             Some (Inl (Error (''Failed to get page content: '' @ message engine e)), hist_after)"
    by blast
next
  assume a: "notion hist (PagesRetrieve pid) = Inr page
       \<and> fetch_blocks notion pid (hist @ [PagesRetrieve pid]) JUndefined []
           = Some (Inr [d, p, h], hist_after)
       \<and> extractAllProperties page = Inr props
       \<and> js_get d ''type'' = Inr (JStr ''divider'')
       \<and> js_get p ''type'' = Inr (JStr ''paragraph'') \<and> js_get p ''paragraph'' = Inr pp
       \<and> js_get pp ''rich_text'' = Inr (JArr pruns)
       \<and> list_all2 (\<lambda>r t. js_get r ''plain_text'' = Inr (JStr t)) pruns ptexts
       \<and> concat ptexts = []
       \<and> js_get h ''type'' = Inr (JStr hk) \<and> hk \<in> {''heading_1'', ''heading_2'', ''heading_3''}
       \<and> js_get h hk = Inr hp \<and> js_get hp ''rich_text'' = Inr (JArr runs)
       \<and> list_all2 (\<lambda>r t. js_get r ''plain_text'' = Inr (JStr t)) runs texts"
  then have page: "notion hist (PagesRetrieve pid) = Inr page"
    and listed: "fetch_blocks notion pid (hist @ [PagesRetrieve pid]) JUndefined []
           = Some (Inr [d, p, h], hist_after)"
    and props: "extractAllProperties page = Inr props"
    by simp_all
  have d: "render d = Inr ''---''"
    using a render_documented [of d "''divider''" JUndefined "[]" "[]" False "[]"]
    by (simp add: text_kinds_def table_4_2_def)
  have p: "render p = Inr []"
    using a render_documented [of p "''paragraph''" pp pruns ptexts False "[]"]
    by (simp add: text_kinds_def table_4_2_def)
  have h: "render h = Inr (table_4_2 hk False [] (concat texts))"
    using a by (intro render_documented [where payload = hp and runs = runs]) auto
  show ne: "table_4_2 hk False [] (concat texts) \<noteq> []"
    using a by (auto simp: table_4_2_def)
  from d p h show r: "render_all [d, p, h] = Inr [''---'', [], table_4_2 hk False [] (concat texts)]"
    by (simp add: render_all_def)
  from r ne have "content_lines [d, p, h] = Inr [''---'', table_4_2 hk False [] (concat texts)]"
    by (simp add: content_lines_def)
  with props show "getPageContent engine notion hist pid =
          Some (Inr \<lparr>data_page = page, data_properties = props,
                     data_content = ''---'' @ [CHR 0x0A, CHR 0x0A]
                                    @ table_4_2 hk False [] (concat texts),
                     data_blocks = [d, p, h]\<rparr>, hist_after)"
    by (simp add: getPageContent_def getPageContent_try_listing [OF page listed]
          MARKDOWN_SYMBOLS_DOUBLE_NEWLINE_def)
qed


theorem getPageContent_content_witness:
  "getPageContent (\<lambda>t. ''TypeError'')
     (scripted
        [Inr (JObj [(''id'', JStr ''page'')]),
         Inr (JObj [(''results'',
                JArr [JObj [(''type'', JStr ''divider''), (''divider'', JObj [])],
                      JObj [(''type'', JStr ''paragraph''),
                            (''paragraph'', JObj [(''rich_text'', JArr [])])],
                      JObj [(''type'', JStr ''heading_1''),
                            (''heading_1'',
                             JObj [(''rich_text'', JArr [JObj [(''plain_text'', JStr ''Title'')]])])]]),
               (''next_cursor'', JNull)])])
     [] ''page''
   = Some (Inr \<lparr>data_page = JObj [(''id'', JStr ''page'')], data_properties = [],
                data_content = ''---'' @ [CHR 0x0A, CHR 0x0A] @ ''# Title'',
                data_blocks =
                  [JObj [(''type'', JStr ''divider''), (''divider'', JObj [])],
                   JObj [(''type'', JStr ''paragraph''),
                         (''paragraph'', JObj [(''rich_text'', JArr [])])],
                   JObj [(''type'', JStr ''heading_1''),
                         (''heading_1'',
                          JObj [(''rich_text'', JArr [JObj [(''plain_text'', JStr ''Title'')]])])]]\<rparr>,
           [PagesRetrieve ''page'', BlocksChildrenList ''page'' JUndefined])
   \<and> (\<exists>lines. length lines = 3
         \<and> ''---'' @ [CHR 0x0A, CHR 0x0A] @ ''# Title''
             = join_strs [CHR 0x0A, CHR 0x0A] (filter (\<lambda>l. l \<noteq> []) lines))
   \<and> getPageContent (\<lambda>t. ''TypeError'')
       (scripted
          [Inr (JObj [(''id'', JStr ''page'')]),
           Inr (JObj [(''results'',
                       JArr [JObj [(''type'', JStr ''divider'')], JObj [(''type'', JStr ''heading_1'')]]),
                      (''next_cursor'', JNull)])])
       [] ''page''
     = Some (Inl (Error ''Failed to get page content: TypeError''),
             [PagesRetrieve ''page'', BlocksChildrenList ''page'' JUndefined])"
proof -
  let ?page = "JObj [(''id'', JStr ''page'')]"
  let ?d = "JObj [(''type'', JStr ''divider''), (''divider'', JObj [])]"
  let ?p = "JObj [(''type'', JStr ''paragraph''), (''paragraph'', JObj [(''rich_text'', JArr [])])]"
  let ?h = "JObj [(''type'', JStr ''heading_1''),
                  (''heading_1'',
                   JObj [(''rich_text'', JArr [JObj [(''plain_text'', JStr ''Title'')]])])]"
  let ?listing = "JObj [(''results'', JArr [?d, ?p, ?h]), (''next_cursor'', JNull)]"
  let ?notion = "scripted [Inr ?page, Inr ?listing]"
  let ?hist = "[PagesRetrieve ''page'', BlocksChildrenList ''page'' JUndefined]"
  let ?engine = "\<lambda>t :: type_fault. ''TypeError''"
  have page: "?notion [] (PagesRetrieve ''page'') = Inr ?page"
    by (simp add: scripted_def)
  have "fetch_blocks ?notion ''page'' [PagesRetrieve ''page''] JUndefined [] =
      Some (Inr ([] @ concat (map fst [([?d, ?p, ?h], JNull)])),
            [PagesRetrieve ''page'']
              @ map (BlocksChildrenList ''page'')
                  (JUndefined # butlast (map snd [([?d, ?p, ?h], JNull)])))"
    by (rule fetch_blocks_pages [where rs = "[?listing]"])
       (simp_all add: scripted_def js_spread_def)
  then have listed: "fetch_blocks ?notion ''page'' ([] @ [PagesRetrieve ''page'']) JUndefined [] =
      Some (Inr [?d, ?p, ?h], ?hist)"
    by simp
  have props: "extractAllProperties ?page = Inr []"
    by (simp add: extractAllProperties_def object_entries_def js_or_def)
  have "render_all [?d, ?p, ?h]
        = Inr [''---'', [], table_4_2 ''heading_1'' False [] (concat [''Title''])]
      \<and> table_4_2 ''heading_1'' False [] (concat [''Title'']) \<noteq> []
      \<and> getPageContent ?engine ?notion [] ''page'' =
          Some (Inr \<lparr>data_page = ?page, data_properties = [],
                     data_content = ''---'' @ [CHR 0x0A, CHR 0x0A]
                                    @ table_4_2 ''heading_1'' False [] (concat [''Title'']),
                     data_blocks = [?d, ?p, ?h]\<rparr>, ?hist)"
    using page listed props
    by (intro getPageContent_content
          [where pp = "JObj [(''rich_text'', JArr [])]" and pruns = "[]" and ptexts = "[]"
             and hp = "JObj [(''rich_text'', JArr [JObj [(''plain_text'', JStr ''Title'')]])]"
             and runs = "[JObj [(''plain_text'', JStr ''Title'')]]",
           THEN conjunct2, THEN conjunct2, THEN conjunct2, THEN mp])
       simp
  then have run: "getPageContent ?engine ?notion [] ''page'' =
      Some (Inr \<lparr>data_page = ?page, data_properties = [],
                 data_content = ''---'' @ [CHR 0x0A, CHR 0x0A] @ ''# Title'',
                 data_blocks = [?d, ?p, ?h]\<rparr>, ?hist)"
    by (simp add: table_4_2_def)
  from getPageContent_content [THEN conjunct1, THEN mp, OF run]
  obtain lines where "length lines = length [?d, ?p, ?h]"
    and "''---'' @ [CHR 0x0A, CHR 0x0A] @ ''# Title''
             = join_strs [CHR 0x0A, CHR 0x0A] (filter (\<lambda>l. l \<noteq> []) lines)"
    by auto
  then have lines: "\<exists>lines. length lines = 3
         \<and> ''---'' @ [CHR 0x0A, CHR 0x0A] @ ''# Title''
             = join_strs [CHR 0x0A, CHR 0x0A] (filter (\<lambda>l. l \<noteq> []) lines)"
    by (intro exI [of _ lines]) (simp add: numeral_3_eq_3)
  let ?bad = "[JObj [(''type'', JStr ''divider'')], JObj [(''type'', JStr ''heading_1'')]]"
  let ?listing2 = "JObj [(''results'', JArr ?bad), (''next_cursor'', JNull)]"
  let ?notion2 = "scripted [Inr ?page, Inr ?listing2]"
  have page2: "?notion2 [] (PagesRetrieve ''page'') = Inr ?page"
    by (simp add: scripted_def)
  have "fetch_blocks ?notion2 ''page'' [PagesRetrieve ''page''] JUndefined [] =
      Some (Inr ([] @ concat (map fst [(?bad, JNull)])),
            [PagesRetrieve ''page'']
              @ map (BlocksChildrenList ''page'') (JUndefined # butlast (map snd [(?bad, JNull)])))"
    by (rule fetch_blocks_pages [where rs = "[?listing2]"])
       (simp_all add: scripted_def js_spread_def)
  then have listed2: "fetch_blocks ?notion2 ''page'' ([] @ [PagesRetrieve ''page'']) JUndefined [] =
      Some (Inr ?bad, ?hist)"
    by simp
  have thrown: "render (JObj [(''type'', JStr ''heading_1'')])
      = Inl (TypeError (NullishRead JUndefined ''rich_text''))"
    by (simp add: render_def block_text_def prefixed_def)
  have all_thrown: "render_all ?bad = Inl (TypeError (NullishRead JUndefined ''rich_text''))"
    by (simp add: render_all_def render_def block_text_def prefixed_def symbols)
  have "\<exists>e. render_all ?bad = Inl e
         \<and> getPageContent ?engine ?notion2 [] ''page'' =
             Some (Inl (Error (''Failed to get page content: '' @ message ?engine e)), ?hist)"
    using page2 listed2 thrown
    by (intro getPageContent_content
          [where b = "JObj [(''type'', JStr ''heading_1'')]" and page = ?page,
           THEN conjunct2, THEN conjunct2, THEN conjunct1, THEN mp])
       simp
  with all_thrown have failed: "getPageContent ?engine ?notion2 [] ''page'' =
      Some (Inl (Error ''Failed to get page content: TypeError''), ?hist)"
    by (auto simp: message_def)
  from run lines failed show ?thesis by simp
qed

section \<open>The keys of the normalized properties\<close>

lemma update_fresh: "k \<notin> fst ` set al \<Longrightarrow> AList.update k v al = al @ [(k, v)]"
  by (induction al) auto

lemma extract_entries_fresh:
  "distinct (map fst entries) \<Longrightarrow> fst ` set entries \<inter> fst ` set props = {} \<Longrightarrow>
   list_all2 (\<lambda>(k, v) w. normalize_property v = Inr w) entries ws \<Longrightarrow>
   extract_entries entries props =
     Inr (props @ filter (\<lambda>(k, w). k \<noteq> ''__proto__'') (zip (map fst entries) ws))"
proof (induction entries arbitrary: props ws)
  case Nil
  then show ?case by simp
next
  case (Cons entry entries)
  obtain k v where entry: "entry = (k, v)" by (cases entry)
  from Cons.prems(3) entry obtain w ws' where ws: "ws = w # ws'"
    and w: "normalize_property v = Inr w"
    and rest: "list_all2 (\<lambda>(k, v) w. normalize_property v = Inr w) entries ws'"
    by (auto simp: list_all2_Cons1)
  from Cons.prems(1) have d: "distinct (map fst entries)" by simp
  from Cons.prems(1,2) entry have fresh: "k \<notin> fst ` set props" "k \<notin> fst ` set entries"
    by auto
  have disjoint: "fst ` set entries \<inter> fst ` set (set_property props k w) = {}"
    using Cons.prems(2) fresh entry by (auto simp: set_property_def update_fresh)
  have "extract_entries entries (set_property props k w) =
     Inr (set_property props k w
          @ filter (\<lambda>(k, w). k \<noteq> ''__proto__'') (zip (map fst entries) ws'))"
    by (rule Cons.IH [OF d disjoint rest])
  with entry w ws fresh(1) show ?case
    by (simp add: set_property_def update_fresh)
qed

text \<open>
  Apart from the key \<open>__proto__\<close>, the output of extractAllProperties has the keys of
  the input, in the input's order, each with the normalized value of its property.
\<close>

theorem extractAllProperties_keeps_keys:
  assumes "js_get page ''properties'' = Inr (JObj kvs)"
    and "distinct (map fst kvs)"
    and "''__proto__'' \<notin> fst ` set kvs"
    and "list_all2 (\<lambda>(k, v) w. normalize_property v = Inr w) kvs ws"
  shows "extractAllProperties page = Inr (zip (map fst kvs) ws)
     \<and> map fst (zip (map fst kvs) ws) = map fst kvs"
proof -
  from assms(4) have len: "length ws = length kvs"
    by (simp add: list_all2_lengthD)
  from assms(3) have "filter (\<lambda>(k, w). k \<noteq> ''__proto__'') (zip (map fst kvs) ws)
      = zip (map fst kvs) ws"
    by (auto simp: filter_id_conv dest: set_zip_leftD)
  with extract_entries_fresh [OF assms(2) _ assms(4), of "[]"]
  have "extract_entries kvs [] = Inr (zip (map fst kvs) ws)" by simp
  with assms(1) len show ?thesis
    by (simp add: extractAllProperties_def object_entries_def js_or_def)
qed

theorem extractAllProperties_keeps_keys_witness:
  "extractAllProperties
     (JObj [(''properties'',
        JObj [(''Name'', JObj [(''type'', JStr ''title''),
                               (''title'', JArr [JObj [(''plain_text'', JStr ''Plan'')]])]),
              (''Done'', JObj [(''type'', JStr ''checkbox''), (''checkbox'', JBool True)])])])
   = Inr [(''Name'', JStr ''Plan''), (''Done'', JBool True)]"
  using extractAllProperties_keeps_keys
    [where page = "JObj [(''properties'',
        JObj [(''Name'', JObj [(''type'', JStr ''title''),
                               (''title'', JArr [JObj [(''plain_text'', JStr ''Plan'')]])]),
              (''Done'', JObj [(''type'', JStr ''checkbox''), (''checkbox'', JBool True)])])]"
       and kvs = "[(''Name'', JObj [(''type'', JStr ''title''),
                               (''title'', JArr [JObj [(''plain_text'', JStr ''Plan'')]])]),
              (''Done'', JObj [(''type'', JStr ''checkbox''), (''checkbox'', JBool True)])]"
       and ws = "[JStr ''Plan'', JBool True]"]
  by (simp add: normalize_property_def opt_map_def nullish_def js_map_def js_join_def js_or_def)

text \<open>
  A property value whose \<open>type\<close> is none of the twelve enumerated kinds is passed on
  unchanged.
\<close>

theorem unknown_kind_passes_through:
  assumes "js_get v ''type'' = Inr ty" and "ty \<notin> JStr ` set property_kinds"
  shows "normalize_property v = Inr v"
  using assms by (simp add: normalize_property_def property_kinds_def)

theorem unknown_kind_passes_through_witness:
  "normalize_property (JObj [(''type'', JStr ''formula''),
                             (''formula'', JObj [(''type'', JStr ''number''), (''number'', JNum ''7'')])])
   = Inr (JObj [(''type'', JStr ''formula''),
                (''formula'', JObj [(''type'', JStr ''number''), (''number'', JNum ''7'')])])"
  using unknown_kind_passes_through
    [of "JObj [(''type'', JStr ''formula''),
               (''formula'', JObj [(''type'', JStr ''number''), (''number'', JNum ''7'')])]"
        "JStr ''formula''"]
  by (simp add: property_kinds_def)

end
